theory Spec2Isabelle
  imports Complex_Main
begin

section \<open>Values of the program\<close>

text \<open>
  Prices, thresholds and quantities are Python floats. Only their comparisons matter
  here, so a float is a real number or one of the three special values; the comparison
  follows IEEE 754 as Python does: every comparison with NaN is false.
\<close>

datatype pyfloat = NaN | NegInf | Fin real | PosInf

fun float_lt :: "pyfloat \<Rightarrow> pyfloat \<Rightarrow> bool" where
  "float_lt NaN y = False"
| "float_lt x NaN = False"
| "float_lt x NegInf = False"
| "float_lt PosInf y = False"
| "float_lt NegInf y = True"
| "float_lt (Fin x) (Fin y) = (x < y)"
| "float_lt (Fin x) PosInf = True"

definition float_gt :: "pyfloat \<Rightarrow> pyfloat \<Rightarrow> bool" where
  "float_gt x y = float_lt y x"

text \<open>
  Python exceptions that the two programs can meet. \<open>KeyboardInterrupt\<close> and
  \<open>SystemExit\<close> derive from \<open>BaseException\<close> only, so \<open>except Exception\<close> does
  not catch them.
\<close>

datatype exn =
    KeyboardInterrupt | SystemExit
  | FileNotFoundError | PermissionError
  | ValueError | KeyError | EOFError
  | BinanceAPIException | ConnectionError

fun is_Exception :: "exn \<Rightarrow> bool" where
  "is_Exception KeyboardInterrupt = False"
| "is_Exception SystemExit = False"
| "is_Exception e = True"

text \<open>The builtin \<open>float(s)\<close>: a float, or the exception it raises.\<close>

type_synonym float_parser = "string \<Rightarrow> exn + pyfloat"

section \<open>The threshold decision\<close>

text \<open>
  The thresholds and the order size of a run: the locals \<open>symbol\<close>, \<open>buy_price\<close>,
  \<open>sell_price\<close>, \<open>quantity\<close> of \<open>run_bot\<close> (bot.py) and the fields of the same names
  of \<open>BasicBot\<close> (trading\_bot.py).
\<close>

record config =
  symbol :: string
  buy_price :: pyfloat
  sell_price :: pyfloat
  quantity :: pyfloat

datatype decision = NoAction | RequestBuy | RequestSell

text \<open>
  The branch taken by the \<open>if\<close>/\<open>elif\<close> of the trading logic (bot.py lines 102 and 107,
  trading\_bot.py lines 131 and 136):
  \<^verbatim>\<open>
  if not in_position and price < buy_price: ...
  elif in_position and price > sell_price: ...
  \<close>
\<close>

definition evaluate :: "pyfloat \<Rightarrow> bool \<Rightarrow> 'a config_scheme \<Rightarrow> decision" where
  "evaluate price in_position cfg =
     (if \<not> in_position \<and> float_lt price (buy_price cfg) then RequestBuy
      else if in_position \<and> float_gt price (sell_price cfg) then RequestSell
      else NoAction)"

section \<open>Strings\<close>

text \<open>
  Strings are byte lists; the helpers below are \<open>str.strip\<close>, \<open>str.lower\<close>,
  \<open>str.startswith\<close> and \<open>str.split(sep, 1)\<close> on ASCII text.
\<close>

definition is_space :: "char \<Rightarrow> bool" where
  "is_space c =
     (let n = (of_char c :: nat) in n = 32 \<or> (9 \<le> n \<and> n \<le> 13) \<or> (28 \<le> n \<and> n \<le> 31))"

definition strip :: "string \<Rightarrow> string" where
  "strip s = rev (dropWhile is_space (rev (dropWhile is_space s)))"

definition lower_char :: "char \<Rightarrow> char" where
  "lower_char c =
     (let n = (of_char c :: nat) in if 65 \<le> n \<and> n \<le> 90 then char_of (n + 32) else c)"

definition lower :: "string \<Rightarrow> string" where
  "lower s = map lower_char s"

fun startswith :: "string \<Rightarrow> string \<Rightarrow> bool" where
  "startswith s [] = True"
| "startswith [] (p # ps) = False"
| "startswith (c # cs) (p # ps) = (c = p \<and> startswith cs ps)"

text \<open>
  \<open>s.split('=', 1)\<close> unpacked into two names: the text before and after the first
  \<open>=\<close>; \<open>None\<close> when there is no \<open>=\<close> (the unpacking then raises
  \<open>ValueError\<close>).
\<close>

fun split_eq :: "string \<Rightarrow> (string \<times> string) option" where
  "split_eq [] = None"
| "split_eq (c # cs) =
     (if c = CHR ''='' then Some ([], cs)
      else (case split_eq cs of None \<Rightarrow> None | Some (k, v) \<Rightarrow> Some (c # k, v)))"

section \<open>Log records and calls\<close>

datatype level = INFO | WARNING | ERROR | CRITICAL

datatype alert =
    TradeFailedAlert string pyfloat bool
  | BoughtAlert pyfloat string pyfloat
  | SoldAlert pyfloat string pyfloat
  | BotCrashedAlert exn

text \<open>The log records, by their format string and the values put in it.\<close>

datatype msg =
    StartingMsg
  | ModeMsg bool
  | SettingsMsg string pyfloat pyfloat
  | BalanceMsg "string \<Rightarrow> pyfloat option"
  | PriceMsg string pyfloat bool
  | OrderExecutedMsg bool string
  | TradeFailedMsg exn
  | AlertMsg alert
  | BoughtMsg pyfloat string pyfloat
  | SoldMsg pyfloat string pyfloat
  | StoppedByUserMsg
  | FatalMsg exn
  | LoopErrorMsg exn
  | BalanceFailedMsg exn
  | StopLimitPlacedMsg string
  | StopLimitFailedMsg exn
  | OcoPlacedMsg string
  | OcoFailedMsg exn
  | EnvNotFoundMsg

text \<open>
  What a run does to the outside, in order: log records, console output, calls of the
  exchange client, prompts and sleeps.
\<close>

datatype event =
    Log level msg
  | Print string
  | GetAccount
  | GetSymbolTicker string
  | OrderMarketBuy string pyfloat
  | OrderMarketSell string pyfloat
  | CreateOrder string pyfloat pyfloat pyfloat
  | CreateOcoOrder string pyfloat pyfloat pyfloat pyfloat
  | Input
  | Sleep nat

section \<open>Configuration loading\<close>

text \<open>
  The loop over the lines of \<open>.env\<close>, the same in \<open>load_config\<close> (bot.py) and
  \<open>load_env\<close> (trading\_bot.py):
  \<^verbatim>\<open>
  for line in f:
      if line.strip() and not line.startswith('#'):
          key, value = line.strip().split('=', 1)
          config[key] = value
  \<close>
\<close>

fun parse_lines :: "(string \<Rightarrow> string option) \<Rightarrow> string list \<Rightarrow> exn + (string \<Rightarrow> string option)" where
  "parse_lines config [] = Inr config"
| "parse_lines config (line # rest) =
     (if strip line \<noteq> [] \<and> \<not> startswith line ''#''
      then (case split_eq (strip line) of
              None \<Rightarrow> Inl ValueError
            | Some (key, val) \<Rightarrow> parse_lines (config(key \<mapsto> val)) rest)
      else parse_lines config rest)"

definition default_config :: "string \<Rightarrow> string option" where
  "default_config =
     [''BINANCE_API_KEY'' \<mapsto> ''your_testnet_key'',
      ''BINANCE_API_SECRET'' \<mapsto> ''your_testnet_secret'',
      ''USE_TESTNET'' \<mapsto> ''True'',
      ''SYMBOL'' \<mapsto> ''BTCUSDT'',
      ''BUY_THRESHOLD'' \<mapsto> ''60000'',
      ''SELL_THRESHOLD'' \<mapsto> ''68000'',
      ''TRADE_QUANTITY'' \<mapsto> ''0.001'']"

text \<open>
  \<open>load_config\<close> of bot.py. The argument is what \<open>open('.env')\<close> gives: the lines
  of the file, or the exception raised. Only \<open>FileNotFoundError\<close> is handled.
\<close>

definition load_config :: "exn + string list \<Rightarrow> event list \<times> (exn + (string \<Rightarrow> string option))" where
  "load_config file =
     (case file of
        Inr lines \<Rightarrow> ([], parse_lines Map.empty lines)
      | Inl e \<Rightarrow>
          if e = FileNotFoundError
          then ([Print ''Warning: No .env file found. Using default testnet config.''],
                Inr default_config)
          else ([], Inl e))"

text \<open>\<open>load_env\<close> of trading\_bot.py: a missing file gives the empty dictionary.\<close>

definition load_env :: "exn + string list \<Rightarrow> event list \<times> (exn + (string \<Rightarrow> string option))" where
  "load_env file =
     (case file of
        Inr lines \<Rightarrow> ([], parse_lines Map.empty lines)
      | Inl e \<Rightarrow>
          if e = FileNotFoundError
          then ([Log WARNING EnvNotFoundMsg], Inr Map.empty)
          else ([], Inl e))"

text \<open>\<open>d.get(key, default)\<close>.\<close>

definition dict_get :: "(string \<Rightarrow> string option) \<Rightarrow> string \<Rightarrow> string \<Rightarrow> string" where
  "dict_get d k dflt = (case d k of None \<Rightarrow> dflt | Some v \<Rightarrow> v)"

text \<open>
  The defaults that the entry point of trading\_bot.py gives to \<open>argparse\<close>
  (lines 159 to 166), computed from the dictionary \<open>env\<close> in the order of the
  \<open>add_argument\<close> calls; a \<open>float\<close> that raises ends the program.
\<close>

record args =
  arg_api_key :: string
  arg_api_secret :: string
  arg_symbol :: string
  arg_buy :: pyfloat
  arg_sell :: pyfloat
  arg_qty :: pyfloat
  arg_testnet :: bool
  arg_ui :: bool

definition arg_defaults :: "float_parser \<Rightarrow> (string \<Rightarrow> string option) \<Rightarrow> exn + args" where
  "arg_defaults pf env =
     (case pf (dict_get env ''BUY_THRESHOLD'' ''60000'') of
        Inl e \<Rightarrow> Inl e
      | Inr b \<Rightarrow>
     (case pf (dict_get env ''SELL_THRESHOLD'' ''68000'') of
        Inl e \<Rightarrow> Inl e
      | Inr s \<Rightarrow>
     (case pf (dict_get env ''TRADE_QUANTITY'' ''0.001'') of
        Inl e \<Rightarrow> Inl e
      | Inr q \<Rightarrow>
          Inr \<lparr>arg_api_key = dict_get env ''BINANCE_API_KEY'' [],
               arg_api_secret = dict_get env ''BINANCE_API_SECRET'' [],
               arg_symbol = dict_get env ''SYMBOL'' ''BTCUSDT'',
               arg_buy = b, arg_sell = s, arg_qty = q,
               arg_testnet = (lower (dict_get env ''USE_TESTNET'' ''True'') = ''true''),
               arg_ui = False\<rparr>)))"

section \<open>The exchange client and the terminal\<close>

text \<open>
  The answers of the outside world during one pass of a loop: what each call of the
  client returns or raises, the lines typed at the prompts in the order they are
  asked for, and whether \<open>time.sleep\<close> is interrupted. \<open>ticker\<close> is the value of
  \<open>client.get_symbol_ticker(symbol=...)['price']\<close>.
\<close>

record env =
  ticker :: "exn + string"
  market_buy :: "exn + string"
  market_sell :: "exn + string"
  create_order :: "exn + string"
  create_oco_order :: "exn + string"
  inputs :: "(exn + string) list"
  sleep :: "exn option"

text \<open>\<open>float(client.get_symbol_ticker(symbol=symbol)['price'])\<close>.\<close>

definition fetch_price :: "float_parser \<Rightarrow> 'a env_scheme \<Rightarrow> exn + pyfloat" where
  "fetch_price pf env = (case ticker env of Inl e \<Rightarrow> Inl e | Inr s \<Rightarrow> pf s)"

text \<open>
  The dictionary comprehension of both balance queries, over the list
  \<open>client.get_account()['balances']\<close> of pairs of \<open>asset\<close> and \<open>free\<close>:
  \<^verbatim>\<open>
  { item['asset']: float(item['free']) for item in ... if float(item['free']) > 0 }
  \<close>
\<close>

fun balances_comp ::
  "float_parser \<Rightarrow> (string \<times> string) list \<Rightarrow> (string \<Rightarrow> pyfloat option) \<Rightarrow> exn + (string \<Rightarrow> pyfloat option)" where
  "balances_comp pf [] d = Inr d"
| "balances_comp pf ((asset, free) # items) d =
     (case pf free of
        Inl e \<Rightarrow> Inl e
      | Inr x \<Rightarrow>
          if float_gt x (Fin 0)
          then (case pf free of
                  Inl e \<Rightarrow> Inl e
                | Inr v \<Rightarrow> balances_comp pf items (d(asset \<mapsto> v)))
          else balances_comp pf items d)"

section \<open>bot.py\<close>

definition get_account_balance ::
  "float_parser \<Rightarrow> exn + (string \<times> string) list \<Rightarrow> event list \<times> (exn + (string \<Rightarrow> pyfloat option))" where
  "get_account_balance pf account =
     (case account of
        Inl e \<Rightarrow> ([GetAccount], Inl e)
      | Inr items \<Rightarrow> ([GetAccount], balances_comp pf items Map.empty))"

definition send_alert :: "alert \<Rightarrow> event list" where
  "send_alert message = [Log WARNING (AlertMsg message)]"

text \<open>
  \<open>execute_safe_trade\<close>: the events, and \<open>True\<close>/\<open>False\<close> as returned, or the
  exception that \<open>except Exception\<close> lets through.
\<close>

definition execute_safe_trade ::
  "string \<Rightarrow> pyfloat \<Rightarrow> bool \<Rightarrow> 'a env_scheme \<Rightarrow> event list \<times> (exn + bool)" where
  "execute_safe_trade symb qty is_buy env =
     (let call = (if is_buy then OrderMarketBuy symb qty else OrderMarketSell symb qty) in
      case (if is_buy then market_buy env else market_sell env) of
        Inr resp \<Rightarrow> ([call, Log INFO (OrderExecutedMsg is_buy resp)], Inr True)
      | Inl e \<Rightarrow>
          if is_Exception e
          then ([call, Log ERROR (TradeFailedMsg e)] @ send_alert (TradeFailedAlert symb qty is_buy),
                Inr False)
          else ([call], Inl e))"

text \<open>
  The trading logic of \<open>run_bot\<close> (lines 102 to 110): the events, the new value of
  \<open>in_position\<close>, and the exception raised, if any.
\<close>

definition trading_logic ::
  "config \<Rightarrow> bool \<Rightarrow> pyfloat \<Rightarrow> 'a env_scheme \<Rightarrow> event list \<times> bool \<times> exn option" where
  "trading_logic cfg in_position price env =
     (case evaluate price in_position cfg of
        RequestBuy \<Rightarrow>
          (case execute_safe_trade (symbol cfg) (quantity cfg) True env of
             (ev, Inl e) \<Rightarrow> (ev, in_position, Some e)
           | (ev, Inr ok) \<Rightarrow>
               if ok
               then (ev @ send_alert (BoughtAlert (quantity cfg) (symbol cfg) price), True, None)
               else (ev, in_position, None))
      | RequestSell \<Rightarrow>
          (case execute_safe_trade (symbol cfg) (quantity cfg) False env of
             (ev, Inl e) \<Rightarrow> (ev, in_position, Some e)
           | (ev, Inr ok) \<Rightarrow>
               if ok
               then (ev @ send_alert (SoldAlert (quantity cfg) (symbol cfg) price), False, None)
               else (ev, in_position, None))
      | NoAction \<Rightarrow> ([], in_position, None))"

text \<open>
  One pass through the body of \<open>while True\<close> in \<open>run_bot\<close> (lines 97 to 112): price
  fetch, log record, trading logic, \<open>time.sleep(check_interval)\<close>. The third component
  is the exception that leaves the body, \<open>None\<close> when the body reaches its end.
\<close>

definition loop_body ::
  "float_parser \<Rightarrow> config \<Rightarrow> bool \<Rightarrow> 'a env_scheme \<Rightarrow> event list \<times> bool \<times> exn option" where
  "loop_body pf cfg in_position env =
     (case fetch_price pf env of
        Inl e \<Rightarrow> ([GetSymbolTicker (symbol cfg)], in_position, Some e)
      | Inr price \<Rightarrow>
          (let pre = [GetSymbolTicker (symbol cfg), Log INFO (PriceMsg (symbol cfg) price in_position)] in
           case trading_logic cfg in_position price env of
             (ev, pos, Some e) \<Rightarrow> (pre @ ev, pos, Some e)
           | (ev, pos, None) \<Rightarrow> (pre @ ev @ [Sleep 3], pos, sleep env)))"

text \<open>
  The loop runs until an exception leaves its body. It is run here against the answers
  of finitely many passes; \<open>None\<close> after the last one says that the loop is still
  running.
\<close>

fun while_loop ::
  "float_parser \<Rightarrow> config \<Rightarrow> bool \<Rightarrow> 'a env_scheme list \<Rightarrow> event list \<times> bool \<times> exn option" where
  "while_loop pf cfg in_position [] = ([], in_position, None)"
| "while_loop pf cfg in_position (env # envs) =
     (case loop_body pf cfg in_position env of
        (ev, pos, Some e) \<Rightarrow> (ev, pos, Some e)
      | (ev, pos, None) \<Rightarrow>
          (case while_loop pf cfg pos envs of (ev', r) \<Rightarrow> (ev @ ev', r)))"

datatype status = Running | Stopped | Raised exn

text \<open>The four reads of the module's \<open>config\<close> dictionary at the top of \<open>run_bot\<close>.\<close>

definition read_settings :: "float_parser \<Rightarrow> (string \<Rightarrow> string option) \<Rightarrow> exn + config" where
  "read_settings pf config =
     (case config ''SYMBOL'' of None \<Rightarrow> Inl KeyError | Some symb \<Rightarrow>
     (case config ''BUY_THRESHOLD'' of None \<Rightarrow> Inl KeyError | Some b \<Rightarrow>
     (case pf b of Inl e \<Rightarrow> Inl e | Inr bp \<Rightarrow>
     (case config ''SELL_THRESHOLD'' of None \<Rightarrow> Inl KeyError | Some s \<Rightarrow>
     (case pf s of Inl e \<Rightarrow> Inl e | Inr sp \<Rightarrow>
     (case config ''TRADE_QUANTITY'' of None \<Rightarrow> Inl KeyError | Some q \<Rightarrow>
     (case pf q of Inl e \<Rightarrow> Inl e | Inr qty \<Rightarrow>
        Inr \<lparr>symbol = symb, buy_price = bp, sell_price = sp, quantity = qty\<rparr>)))))))"

text \<open>
  \<open>run_bot\<close>: the start-up records, the settings, \<open>in_position = False\<close>, the loop,
  and the two handlers around it. The result is the events, the last value of
  \<open>in_position\<close> and how the function stands: still looping, returned, or left by an
  exception.
\<close>

definition run_bot ::
  "float_parser \<Rightarrow> (string \<Rightarrow> string option) \<Rightarrow> bool \<Rightarrow> exn + (string \<times> string) list \<Rightarrow>
     'a env_scheme list \<Rightarrow> event list \<times> bool \<times> status" where
  "run_bot pf config testnet account envs =
     (let start = [Log INFO StartingMsg, Log INFO (ModeMsg testnet)] in
      case get_account_balance pf account of
        (ev, Inl e) \<Rightarrow> (start @ ev, False, Raised e)
      | (ev, Inr bal) \<Rightarrow>
          (let start' = start @ ev @ [Log INFO (BalanceMsg bal)] in
           case read_settings pf config of
             Inl e \<Rightarrow> (start', False, Raised e)
           | Inr cfg \<Rightarrow>
               (case while_loop pf cfg False envs of
                  (ev', pos, None) \<Rightarrow> (start' @ ev', pos, Running)
                | (ev', pos, Some e) \<Rightarrow>
                    if e = KeyboardInterrupt
                    then (start' @ ev' @ [Log INFO StoppedByUserMsg], pos, Stopped)
                    else if is_Exception e
                    then (start' @ ev' @ [Log CRITICAL (FatalMsg e)] @ send_alert (BotCrashedAlert e),
                          pos, Stopped)
                    else (start' @ ev', pos, Raised e))))"

section \<open>trading\_bot.py\<close>

text \<open>
  The fields of \<open>BasicBot\<close> apart from the client handle; \<open>__init__\<close> stores its
  arguments and sets \<open>in_position\<close> to \<open>False\<close>.
\<close>

record basic_bot = config +
  in_position :: bool

definition BasicBot_init :: "string \<Rightarrow> pyfloat \<Rightarrow> pyfloat \<Rightarrow> pyfloat \<Rightarrow> basic_bot" where
  "BasicBot_init symb bp sp qty =
     \<lparr>symbol = symb, buy_price = bp, sell_price = sp, quantity = qty, in_position = False\<rparr>"

text \<open>\<open>get_balance\<close>: as in bot.py, but any \<open>Exception\<close> gives the empty dictionary.\<close>

definition get_balance ::
  "float_parser \<Rightarrow> exn + (string \<times> string) list \<Rightarrow> event list \<times> (exn + (string \<Rightarrow> pyfloat option))" where
  "get_balance pf account =
     (case (case account of Inl e \<Rightarrow> Inl e | Inr items \<Rightarrow> balances_comp pf items Map.empty) of
        Inr d \<Rightarrow> ([GetAccount], Inr d)
      | Inl e \<Rightarrow>
          if is_Exception e
          then ([GetAccount, Log ERROR (BalanceFailedMsg e)], Inr Map.empty)
          else ([GetAccount], Inl e))"

definition execute_trade :: "basic_bot \<Rightarrow> bool \<Rightarrow> 'a env_scheme \<Rightarrow> event list \<times> (exn + bool)" where
  "execute_trade self is_buy env =
     (let call = (if is_buy then OrderMarketBuy (symbol self) (quantity self)
                  else OrderMarketSell (symbol self) (quantity self)) in
      case (if is_buy then market_buy env else market_sell env) of
        Inr resp \<Rightarrow> ([call, Log INFO (OrderExecutedMsg is_buy resp)], Inr True)
      | Inl e \<Rightarrow>
          if is_Exception e
          then ([call, Log ERROR (TradeFailedMsg e)], Inr False)
          else ([call], Inl e))"

definition place_stop_limit_sell ::
  "basic_bot \<Rightarrow> pyfloat \<Rightarrow> pyfloat \<Rightarrow> 'a env_scheme \<Rightarrow> event list \<times> exn option" where
  "place_stop_limit_sell self stop_price limit_price env =
     (let call = CreateOrder (symbol self) (quantity self) limit_price stop_price in
      case create_order env of
        Inr resp \<Rightarrow> ([call, Log INFO (StopLimitPlacedMsg resp)], None)
      | Inl e \<Rightarrow>
          if is_Exception e
          then ([call, Log ERROR (StopLimitFailedMsg e)], None)
          else ([call], Some e))"

definition place_oco_order ::
  "basic_bot \<Rightarrow> pyfloat \<Rightarrow> pyfloat \<Rightarrow> pyfloat \<Rightarrow> 'a env_scheme \<Rightarrow> event list \<times> exn option" where
  "place_oco_order self take_profit_price stop_price stop_limit_price env =
     (let call = CreateOcoOrder (symbol self) (quantity self) take_profit_price stop_price stop_limit_price in
      case create_oco_order env of
        Inr resp \<Rightarrow> ([call, Log INFO (OcoPlacedMsg resp)], None)
      | Inl e \<Rightarrow>
          if is_Exception e
          then ([call, Log ERROR (OcoFailedMsg e)], None)
          else ([call], Some e))"

text \<open>
  \<open>input(prompt)\<close> takes the next typed line; at the end of the input it raises
  \<open>EOFError\<close>. \<open>float(input(prompt))\<close> converts it.
\<close>

fun next_input :: "(exn + string) list \<Rightarrow> (exn + string) \<times> (exn + string) list" where
  "next_input [] = (Inl EOFError, [])"
| "next_input (r # rs) = (r, rs)"

definition input_float ::
  "float_parser \<Rightarrow> (exn + string) list \<Rightarrow> (exn + pyfloat) \<times> (exn + string) list" where
  "input_float pf ins =
     (case next_input ins of
        (Inl e, rest) \<Rightarrow> (Inl e, rest)
      | (Inr s, rest) \<Rightarrow> (pf s, rest))"

text \<open>How a pass through the loop ends: \<open>continue\<close> or the end of the body, or \<open>break\<close>.\<close>

datatype control = Continue | Break

text \<open>
  The interactive branch of \<open>run\<close> (lines 112 to 129), from the prompt to the
  \<open>continue\<close>. The object is returned as the branch leaves it.
\<close>

definition ui_branch ::
  "float_parser \<Rightarrow> basic_bot \<Rightarrow> 'a env_scheme \<Rightarrow> event list \<times> basic_bot \<times> (exn + control)" where
  "ui_branch pf self env =
     (case next_input (inputs env) of
        (Inl e, rest) \<Rightarrow> ([Input], self, Inl e)
      | (Inr line, rest) \<Rightarrow>
          (let user_input = lower (strip line) in
           if user_input = ''b'' then
             (case execute_trade self True env of
                (ev, Inl e) \<Rightarrow> (Input # ev, self, Inl e)
              | (ev, Inr ok) \<Rightarrow> (Input # ev, self, Inr Continue))
           else if user_input = ''s'' then
             (case execute_trade self False env of
                (ev, Inl e) \<Rightarrow> (Input # ev, self, Inl e)
              | (ev, Inr ok) \<Rightarrow> (Input # ev, self, Inr Continue))
           else if user_input = ''oco'' then
             (case input_float pf rest of
                (Inl e, rest1) \<Rightarrow> ([Input, Input], self, Inl e)
              | (Inr tp, rest1) \<Rightarrow>
             (case input_float pf rest1 of
                (Inl e, rest2) \<Rightarrow> ([Input, Input, Input], self, Inl e)
              | (Inr sp, rest2) \<Rightarrow>
             (case input_float pf rest2 of
                (Inl e, rest3) \<Rightarrow> ([Input, Input, Input, Input], self, Inl e)
              | (Inr slp, rest3) \<Rightarrow>
             (case place_oco_order self tp sp slp env of
                (ev, Some e) \<Rightarrow> ([Input, Input, Input, Input] @ ev, self, Inl e)
              | (ev, None) \<Rightarrow> ([Input, Input, Input, Input] @ ev, self, Inr Continue)))))
           else if user_input = ''stop'' then
             (case input_float pf rest of
                (Inl e, rest1) \<Rightarrow> ([Input, Input], self, Inl e)
              | (Inr sp, rest1) \<Rightarrow>
             (case input_float pf rest1 of
                (Inl e, rest2) \<Rightarrow> ([Input, Input, Input], self, Inl e)
              | (Inr lp, rest2) \<Rightarrow>
             (case place_stop_limit_sell self sp lp env of
                (ev, Some e) \<Rightarrow> ([Input, Input, Input] @ ev, self, Inl e)
              | (ev, None) \<Rightarrow> ([Input, Input, Input] @ ev, self, Inr Continue))))
           else if user_input = ''q'' then ([Input], self, Inr Break)
           else ([Input], self, Inr Continue)))"

text \<open>
  The automatic branch of \<open>run\<close> (lines 131 to 141): trading logic, then
  \<open>time.sleep(3)\<close>.
\<close>

definition auto_branch ::
  "basic_bot \<Rightarrow> pyfloat \<Rightarrow> 'a env_scheme \<Rightarrow> event list \<times> basic_bot \<times> (exn + control)" where
  "auto_branch self price env =
     (let (ev, self', raised) =
        (case evaluate price (in_position self) self of
           RequestBuy \<Rightarrow>
             (case execute_trade self True env of
                (ev, Inl e) \<Rightarrow> (ev, self, Some e)
              | (ev, Inr ok) \<Rightarrow>
                  if ok
                  then (ev @ [Log INFO (BoughtMsg (quantity self) (symbol self) price)],
                        self\<lparr>in_position := True\<rparr>, None)
                  else (ev, self, None))
         | RequestSell \<Rightarrow>
             (case execute_trade self False env of
                (ev, Inl e) \<Rightarrow> (ev, self, Some e)
              | (ev, Inr ok) \<Rightarrow>
                  if ok
                  then (ev @ [Log INFO (SoldMsg (quantity self) (symbol self) price)],
                        self\<lparr>in_position := False\<rparr>, None)
                  else (ev, self, None))
         | NoAction \<Rightarrow> ([], self, None))
      in case raised of
           Some e \<Rightarrow> (ev, self', Inl e)
         | None \<Rightarrow>
             (case sleep env of
                Some e \<Rightarrow> (ev @ [Sleep 3], self', Inl e)
              | None \<Rightarrow> (ev @ [Sleep 3], self', Inr Continue)))"

text \<open>The body of the inner \<open>try\<close> of \<open>run\<close> (lines 107 to 141).\<close>

definition try_body ::
  "float_parser \<Rightarrow> basic_bot \<Rightarrow> bool \<Rightarrow> 'a env_scheme \<Rightarrow> event list \<times> basic_bot \<times> (exn + control)" where
  "try_body pf self ui_mode env =
     (case fetch_price pf env of
        Inl e \<Rightarrow> ([GetSymbolTicker (symbol self)], self, Inl e)
      | Inr price \<Rightarrow>
          (let pre = [GetSymbolTicker (symbol self),
                      Log INFO (PriceMsg (symbol self) price (in_position self))] in
           case (if ui_mode then ui_branch pf self env else auto_branch self price env) of
             (ev, self', r) \<Rightarrow> (pre @ ev, self', r)))"

text \<open>
  One pass through \<open>while True\<close> of \<open>run\<close>: the inner \<open>try\<close> with its two handlers
  (lines 143 to 147). \<open>Inl e\<close> is an exception that neither handler catches.
\<close>

definition run_iteration ::
  "float_parser \<Rightarrow> basic_bot \<Rightarrow> bool \<Rightarrow> 'a env_scheme \<Rightarrow> event list \<times> basic_bot \<times> (exn + control)" where
  "run_iteration pf self ui_mode env =
     (case try_body pf self ui_mode env of
        (ev, self', Inr c) \<Rightarrow> (ev, self', Inr c)
      | (ev, self', Inl e) \<Rightarrow>
          if e = KeyboardInterrupt
          then (ev @ [Log INFO StoppedByUserMsg], self', Inr Break)
          else if is_Exception e
          then (ev @ [Log ERROR (LoopErrorMsg e)], self', Inr Continue)
          else (ev, self', Inl e))"

fun run_loop ::
  "float_parser \<Rightarrow> basic_bot \<Rightarrow> bool \<Rightarrow> 'a env_scheme list \<Rightarrow> event list \<times> basic_bot \<times> status" where
  "run_loop pf self ui_mode [] = ([], self, Running)"
| "run_loop pf self ui_mode (env # envs) =
     (case run_iteration pf self ui_mode env of
        (ev, self', Inl e) \<Rightarrow> (ev, self', Raised e)
      | (ev, self', Inr Break) \<Rightarrow> (ev, self', Stopped)
      | (ev, self', Inr Continue) \<Rightarrow>
          (case run_loop pf self' ui_mode envs of (ev', r) \<Rightarrow> (ev @ ev', r)))"

text \<open>
  \<open>run\<close>: the start-up records, the loop, and the outer handler, which logs an
  \<open>Exception\<close> that leaves the loop as a fatal crash.
\<close>

definition run ::
  "float_parser \<Rightarrow> basic_bot \<Rightarrow> bool \<Rightarrow> exn + (string \<times> string) list \<Rightarrow> 'a env_scheme list \<Rightarrow>
     event list \<times> basic_bot \<times> status" where
  "run pf self ui_mode account envs =
     (let start = [Log INFO StartingMsg,
                   Log INFO (SettingsMsg (symbol self) (buy_price self) (sell_price self))] in
      case get_balance pf account of
        (ev, Inl e) \<Rightarrow> (start @ ev, self, Raised e)
      | (ev, Inr bal) \<Rightarrow>
          (case run_loop pf self ui_mode envs of
             (ev', self', Raised e) \<Rightarrow>
               if is_Exception e
               then (start @ ev @ [Log INFO (BalanceMsg bal)] @ ev' @ [Log CRITICAL (FatalMsg e)],
                     self', Stopped)
               else (start @ ev @ [Log INFO (BalanceMsg bal)] @ ev', self', Raised e)
           | (ev', self', st) \<Rightarrow> (start @ ev @ [Log INFO (BalanceMsg bal)] @ ev', self', st)))"

section \<open>Observations on a trace\<close>

text \<open>The submissions of a market order in a trace, and the levels of its log records.\<close>

fun is_order :: "event \<Rightarrow> bool" where
  "is_order (OrderMarketBuy s q) = True"
| "is_order (OrderMarketSell s q) = True"
| "is_order ev = False"

definition orders :: "event list \<Rightarrow> event list" where
  "orders evs = filter is_order evs"

fun levels :: "event list \<Rightarrow> level list" where
  "levels [] = []"
| "levels (Log l m # evs) = l # levels evs"
| "levels (ev # evs) = levels evs"

text \<open>The sides of the market orders submitted in a trace, as decisions, in order.\<close>

fun requested :: "event list \<Rightarrow> decision list" where
  "requested [] = []"
| "requested (OrderMarketBuy s q # evs) = RequestBuy # requested evs"
| "requested (OrderMarketSell s q # evs) = RequestSell # requested evs"
| "requested (ev # evs) = requested evs"

text \<open>
  A stand-in for \<open>float\<close> on finitely many strings, every other string raising
  \<open>ValueError\<close>; it serves to run the definitions on concrete inputs.
\<close>

definition float_table :: "(string \<times> pyfloat) list \<Rightarrow> float_parser" where
  "float_table tbl s = (case map_of tbl s of None \<Rightarrow> Inl ValueError | Some x \<Rightarrow> Inr x)"

section \<open>Basic facts\<close>

lemma float_lt_irrefl: "\<not> float_lt x x"
  by (cases x) simp_all

lemma requested_append: "requested (xs @ ys) = requested xs @ requested ys"
  by (induction xs rule: requested.induct) simp_all

lemma orders_append: "orders (xs @ ys) = orders xs @ orders ys"
  by (simp add: orders_def)

lemma orders_requested: "length (orders evs) = length (requested evs)"
  unfolding orders_def by (induction evs rule: requested.induct) simp_all

lemma no_orders_mem:
  "orders xs = [] \<Longrightarrow> OrderMarketBuy s q \<notin> set xs \<and> OrderMarketSell s q \<notin> set xs"
  by (auto simp: orders_def filter_empty_conv)

lemma evaluate_cases:
  "(evaluate price pos cfg = RequestBuy \<longleftrightarrow> \<not> pos \<and> float_lt price (buy_price cfg)) \<and>
   (evaluate price pos cfg = RequestSell \<longleftrightarrow> pos \<and> float_gt price (sell_price cfg)) \<and>
   (evaluate price pos cfg = NoAction \<longleftrightarrow>
      \<not> (\<not> pos \<and> float_lt price (buy_price cfg)) \<and> \<not> (pos \<and> float_gt price (sell_price cfg)))"
  by (simp add: evaluate_def)

lemma evaluate_thresholds:
  "buy_price c = buy_price c' \<Longrightarrow> sell_price c = sell_price c' \<Longrightarrow>
     evaluate price pos c = evaluate price pos c'"
  by (simp add: evaluate_def)

subsection \<open>Which orders a pass submits\<close>

lemma requested_execute_safe_trade:
  "requested (fst (execute_safe_trade s q b env)) = [if b then RequestBuy else RequestSell]"
  by (simp add: execute_safe_trade_def send_alert_def Let_def split: sum.splits)

lemma requested_execute_trade:
  "requested (fst (execute_trade self b env)) = [if b then RequestBuy else RequestSell]"
  by (simp add: execute_trade_def Let_def split: sum.splits)

lemma requested_trading_logic:
  "requested (fst (trading_logic cfg pos price env)) =
     (case evaluate price pos cfg of NoAction \<Rightarrow> [] | d \<Rightarrow> [d])"
  using requested_execute_safe_trade [of "symbol cfg" "quantity cfg" True env]
        requested_execute_safe_trade [of "symbol cfg" "quantity cfg" False env]
  by (auto simp: trading_logic_def send_alert_def requested_append
           split: decision.splits prod.splits sum.splits)

lemma requested_auto_branch:
  "requested (fst (auto_branch self price env)) =
     (case evaluate price (in_position self) self of NoAction \<Rightarrow> [] | d \<Rightarrow> [d])"
  using requested_execute_trade [of self True env] requested_execute_trade [of self False env]
  by (auto simp: auto_branch_def requested_append Let_def
           split: decision.splits prod.splits sum.splits option.splits)

lemma requested_loop_body:
  "requested (fst (loop_body pf cfg pos env)) =
     (case fetch_price pf env of
        Inl e \<Rightarrow> []
      | Inr price \<Rightarrow> (case evaluate price pos cfg of NoAction \<Rightarrow> [] | d \<Rightarrow> [d]))"
proof (cases "fetch_price pf env")
  case (Inl e)
  then show ?thesis by (simp add: loop_body_def)
next
  case (Inr price)
  obtain ev p r where t: "trading_logic cfg pos price env = (ev, p, r)"
    by (cases "trading_logic cfg pos price env") auto
  from requested_trading_logic [of cfg pos price env] t
  have "requested ev = (case evaluate price pos cfg of NoAction \<Rightarrow> [] | d \<Rightarrow> [d])"
    by simp
  with Inr t show ?thesis
    by (cases r) (simp_all add: loop_body_def Let_def requested_append)
qed

lemma requested_ui_branch: "length (requested (fst (ui_branch pf self env))) \<le> 1"
  using requested_execute_trade [of self True env] requested_execute_trade [of self False env]
  by (auto simp: ui_branch_def Let_def requested_append place_oco_order_def
                 place_stop_limit_sell_def
           split: prod.splits sum.splits option.splits)

lemma requested_try_body_ui: "length (requested (fst (try_body pf self True env))) \<le> 1"
  using requested_ui_branch [of pf self env]
  by (cases "ui_branch pf self env")
     (auto simp: try_body_def Let_def requested_append split: sum.splits)

lemma requested_try_body_auto:
  "requested (fst (try_body pf self False env)) =
     (case fetch_price pf env of
        Inl e \<Rightarrow> []
      | Inr price \<Rightarrow>
          (case evaluate price (in_position self) self of NoAction \<Rightarrow> [] | d \<Rightarrow> [d]))"
proof (cases "fetch_price pf env")
  case (Inl e)
  then show ?thesis by (simp add: try_body_def)
next
  case (Inr price)
  obtain ev b r where t: "auto_branch self price env = (ev, b, r)"
    by (cases "auto_branch self price env") auto
  from requested_auto_branch [of self price env] t
  have "requested ev =
          (case evaluate price (in_position self) self of NoAction \<Rightarrow> [] | d \<Rightarrow> [d])"
    by simp
  with Inr t show ?thesis
    by (simp add: try_body_def Let_def requested_append)
qed

lemma requested_run_iteration:
  "requested (fst (run_iteration pf self ui env)) = requested (fst (try_body pf self ui env))"
  by (cases "try_body pf self ui env")
     (auto simp: run_iteration_def requested_append split: sum.splits)

subsection \<open>The interactive branch leaves the object alone\<close>

lemma ui_branch_self: "fst (snd (ui_branch pf self env)) = self"
  by (auto simp: ui_branch_def Let_def split: prod.splits sum.splits option.splits)

lemma try_body_ui_self: "fst (snd (try_body pf self True env)) = self"
  using ui_branch_self [of pf self env]
  by (cases "ui_branch pf self env") (auto simp: try_body_def Let_def split: sum.splits)

lemma run_iteration_ui_self: "fst (snd (run_iteration pf self True env)) = self"
  using try_body_ui_self [of pf self env]
  by (cases "try_body pf self True env") (auto simp: run_iteration_def split: sum.splits)

lemma run_loop_ui_self: "fst (snd (run_loop pf self True envs)) = self"
proof (induction envs)
  case Nil
  show ?case by simp
next
  case (Cons env envs)
  obtain ev b c where it: "run_iteration pf self True env = (ev, b, c)"
    by (cases "run_iteration pf self True env") auto
  with run_iteration_ui_self [of pf self env] have b: "b = self" by simp
  show ?case
  proof (cases c)
    case (Inl e)
    with it b show ?thesis by simp
  next
    case (Inr ctl)
    with it b Cons.IH show ?thesis
      by (cases ctl) (auto split: prod.splits)
  qed
qed

lemma run_ui_self: "fst (snd (run pf self True account envs)) = self"
proof -
  obtain ev b st where l: "run_loop pf self True envs = (ev, b, st)"
    by (cases "run_loop pf self True envs") auto
  with run_loop_ui_self [of pf self envs] have "b = self" by simp
  with l show ?thesis
    by (auto simp: run_def Let_def split: prod.splits sum.splits status.splits)
qed

section \<open>The decision\<close>

text \<open>
  Claim C1. For every price, thresholds and position flag, the decision is
  \<open>RequestBuy\<close> exactly when the flag is off and the price is strictly below the buy
  threshold, \<open>RequestSell\<close> exactly when the flag is on and the price is strictly above
  the sell threshold, and \<open>NoAction\<close> exactly when neither holds. The trading logic of
  both programs submits the market order of that decision and no other, so one pass
  never asks for a buy and a sell.
\<close>

theorem evaluate_decision:
  fixes cfg :: config and self :: basic_bot
  shows
  "(evaluate price pos cfg = RequestBuy \<longleftrightarrow> \<not> pos \<and> float_lt price (buy_price cfg)) \<and>
   (evaluate price pos cfg = RequestSell \<longleftrightarrow> pos \<and> float_gt price (sell_price cfg)) \<and>
   (evaluate price pos cfg = NoAction \<longleftrightarrow>
      \<not> (\<not> pos \<and> float_lt price (buy_price cfg)) \<and> \<not> (pos \<and> float_gt price (sell_price cfg))) \<and>
   requested (fst (trading_logic cfg pos price env)) =
      (case evaluate price pos cfg of NoAction \<Rightarrow> [] | d \<Rightarrow> [d]) \<and>
   requested (fst (auto_branch self price env)) =
      (case evaluate price (in_position self) self of NoAction \<Rightarrow> [] | d \<Rightarrow> [d])"
  using evaluate_cases [of price pos cfg] requested_trading_logic [of cfg pos price env]
    requested_auto_branch [of self price env]
  by simp

text \<open>The first three scenarios of the specification, thresholds 60000 and 68000.\<close>

theorem evaluate_decision_witness:
  "evaluate (Fin 59999.99) False
     \<lparr>symbol = ''BTCUSDT'', buy_price = Fin 60000, sell_price = Fin 68000, quantity = Fin 0.001\<rparr>
     = RequestBuy \<and>
   evaluate (Fin 68000.01) True
     \<lparr>symbol = ''BTCUSDT'', buy_price = Fin 60000, sell_price = Fin 68000, quantity = Fin 0.001\<rparr>
     = RequestSell \<and>
   evaluate (Fin 68000.01) False
     \<lparr>symbol = ''BTCUSDT'', buy_price = Fin 60000, sell_price = Fin 68000, quantity = Fin 0.001\<rparr>
     = NoAction"
  using
    conjunct1 [OF evaluate_decision [of "Fin 59999.99" False
      "\<lparr>symbol = ''BTCUSDT'', buy_price = Fin 60000, sell_price = Fin 68000, quantity = Fin 0.001\<rparr>"]]
    conjunct1 [OF conjunct2 [OF evaluate_decision [of "Fin 68000.01" True
      "\<lparr>symbol = ''BTCUSDT'', buy_price = Fin 60000, sell_price = Fin 68000, quantity = Fin 0.001\<rparr>"]]]
    conjunct1 [OF conjunct2 [OF conjunct2 [OF evaluate_decision [of "Fin 68000.01" False
      "\<lparr>symbol = ''BTCUSDT'', buy_price = Fin 60000, sell_price = Fin 68000, quantity = Fin 0.001\<rparr>"]]]]
  by (simp add: float_gt_def)

text \<open>
  Claim C5, as stated, fails: nothing makes the sell threshold exceed the buy
  threshold. With thresholds 68000 (buy) and 60000 (sell), a price equal to the buy
  threshold while in position is above the sell threshold and gives \<open>RequestSell\<close>, and
  a price equal to the sell threshold while out of position gives \<open>RequestBuy\<close>.
\<close>

theorem threshold_tie_counterexample:
  "evaluate (Fin 68000) True
     \<lparr>symbol = ''BTCUSDT'', buy_price = Fin 68000, sell_price = Fin 60000, quantity = Fin 0.001\<rparr>
     = RequestSell \<and>
   evaluate (Fin 60000) False
     \<lparr>symbol = ''BTCUSDT'', buy_price = Fin 68000, sell_price = Fin 60000, quantity = Fin 0.001\<rparr>
     = RequestBuy"
  by (simp add: evaluate_def float_gt_def)

text \<open>
  Claim C5, amended. Both comparisons are strict: a price equal to the buy threshold
  never gives \<open>RequestBuy\<close>, and a price equal to the sell threshold never gives
  \<open>RequestSell\<close>. When the sell threshold is not below the buy threshold, the
  decision at either threshold is \<open>NoAction\<close>, for every position flag.
\<close>

theorem threshold_tie:
  "evaluate (buy_price cfg) pos cfg \<noteq> RequestBuy \<and>
   evaluate (sell_price cfg) pos cfg \<noteq> RequestSell \<and>
   (\<not> float_lt (sell_price cfg) (buy_price cfg) \<longrightarrow>
      evaluate (buy_price cfg) pos cfg = NoAction \<and> evaluate (sell_price cfg) pos cfg = NoAction)"
  by (simp add: evaluate_def float_gt_def float_lt_irrefl)

theorem threshold_tie_witness:
  "\<not> float_lt (Fin 68000) (Fin 60000) \<and>
   evaluate (Fin 60000) False
     \<lparr>symbol = ''BTCUSDT'', buy_price = Fin 60000, sell_price = Fin 68000, quantity = Fin 0.001\<rparr>
     = NoAction \<and>
   evaluate (Fin 68000) True
     \<lparr>symbol = ''BTCUSDT'', buy_price = Fin 60000, sell_price = Fin 68000, quantity = Fin 0.001\<rparr>
     = NoAction"
  using
    threshold_tie [of
      "\<lparr>symbol = ''BTCUSDT'', buy_price = Fin 60000, sell_price = Fin 68000, quantity = Fin 0.001\<rparr>" False]
    threshold_tie [of
      "\<lparr>symbol = ''BTCUSDT'', buy_price = Fin 60000, sell_price = Fin 68000, quantity = Fin 0.001\<rparr>" True]
  by simp

text \<open>
  Claim C6. One pass through either loop submits at most one market order; in
  trading\_bot.py this holds in the automatic and in the interactive mode.
\<close>

theorem one_order_per_pass:
  "length (orders (fst (loop_body pf cfg pos env))) \<le> 1 \<and>
   length (orders (fst (run_iteration pf self ui_mode env))) \<le> 1"
proof
  show "length (orders (fst (loop_body pf cfg pos env))) \<le> 1"
    by (simp add: orders_requested requested_loop_body split: sum.splits decision.splits)
  show "length (orders (fst (run_iteration pf self ui_mode env))) \<le> 1"
  proof (cases ui_mode)
    case True
    then show ?thesis
      using requested_try_body_ui [of pf self env]
      by (simp add: orders_requested requested_run_iteration)
  next
    case False
    then show ?thesis
      by (simp add: orders_requested requested_run_iteration requested_try_body_auto
            split: sum.splits decision.splits)
  qed
qed

text \<open>
  Claim C7. The decision depends on the price, the two thresholds and the position
  flag only. Two passes that see the same price with the same thresholds and flag
  decide alike and submit the same side, whatever the symbol, the quantity, the
  answers of the exchange and the interruption of the sleep are.
\<close>

theorem decision_pure:
  fixes cfg cfg' :: config and self self' :: basic_bot
  assumes "fetch_price pf env = Inr price" and "fetch_price pf' env' = Inr price"
    and "buy_price cfg = buy_price cfg'" and "sell_price cfg = sell_price cfg'"
    and "buy_price self = buy_price self'" and "sell_price self = sell_price self'"
    and "in_position self = in_position self'"
  shows "evaluate price pos cfg = evaluate price pos cfg' \<and>
         requested (fst (loop_body pf cfg pos env)) = requested (fst (loop_body pf' cfg' pos env')) \<and>
         requested (fst (run_iteration pf self False env)) =
           requested (fst (run_iteration pf' self' False env'))"
  using assms evaluate_thresholds [of cfg cfg' price pos]
    evaluate_thresholds [of self self' price "in_position self'"]
  by (simp add: requested_loop_body requested_run_iteration requested_try_body_auto)

section \<open>The position flag\<close>

lemma trading_logic_flag:
  assumes "trading_logic cfg pos price env = (ev, pos', r)"
  shows "(pos' \<noteq> pos \<longrightarrow>
            (\<not> pos \<and> pos' \<and> OrderMarketBuy (symbol cfg) (quantity cfg) \<in> set ev \<and> \<not> isl (market_buy env)) \<or>
            (pos \<and> \<not> pos' \<and> OrderMarketSell (symbol cfg) (quantity cfg) \<in> set ev \<and> \<not> isl (market_sell env)))"
    and "orders ev = [] \<longrightarrow> pos' = pos"
    and "OrderMarketBuy (symbol cfg) (quantity cfg) \<in> set ev \<longrightarrow> \<not> pos \<and> pos' = (\<not> isl (market_buy env))"
    and "OrderMarketSell (symbol cfg) (quantity cfg) \<in> set ev \<longrightarrow> pos \<and> pos' = isl (market_sell env)"
    and "pos' \<and> \<not> pos \<longrightarrow> (\<exists>resp. Log INFO (OrderExecutedMsg True resp) \<in> set ev)"
    and "\<not> pos' \<and> pos \<longrightarrow> (\<exists>resp. Log INFO (OrderExecutedMsg False resp) \<in> set ev)"
  using assms
  by (auto simp: trading_logic_def execute_safe_trade_def send_alert_def evaluate_def Let_def orders_def
           split: decision.splits sum.splits if_splits)

lemma auto_branch_flag:
  assumes "auto_branch self price env = (ev, self', r)"
  shows "(in_position self' \<noteq> in_position self \<longrightarrow>
            (\<not> in_position self \<and> in_position self' \<and> OrderMarketBuy (symbol self) (quantity self) \<in> set ev \<and> \<not> isl (market_buy env)) \<or>
            (in_position self \<and> \<not> in_position self' \<and> OrderMarketSell (symbol self) (quantity self) \<in> set ev \<and> \<not> isl (market_sell env)))"
    and "orders ev = [] \<longrightarrow> self' = self"
    and "OrderMarketBuy (symbol self) (quantity self) \<in> set ev \<longrightarrow>
           \<not> in_position self \<and> in_position self' = (\<not> isl (market_buy env))"
    and "OrderMarketSell (symbol self) (quantity self) \<in> set ev \<longrightarrow>
           in_position self \<and> in_position self' = isl (market_sell env)"
    and "in_position self' \<and> \<not> in_position self \<longrightarrow> (\<exists>resp. Log INFO (OrderExecutedMsg True resp) \<in> set ev)"
    and "\<not> in_position self' \<and> in_position self \<longrightarrow> (\<exists>resp. Log INFO (OrderExecutedMsg False resp) \<in> set ev)"
    and "self' = self\<lparr>in_position := in_position self'\<rparr>"
  using assms
  by (auto simp: auto_branch_def execute_trade_def evaluate_def Let_def orders_def
           split: decision.splits sum.splits if_splits option.splits)

lemma loop_body_shape:
  assumes "loop_body pf cfg pos env = (ev, pos', r)"
  shows "(\<exists>e. fetch_price pf env = Inl e \<and> ev = [GetSymbolTicker (symbol cfg)] \<and> pos' = pos \<and> r = Some e) \<or>
         (\<exists>price evt rt pre post. fetch_price pf env = Inr price \<and>
             trading_logic cfg pos price env = (evt, pos', rt) \<and>
             ev = pre @ evt @ post \<and> orders pre = [] \<and> orders post = [])"
proof (cases "fetch_price pf env")
  case (Inl e)
  with assms show ?thesis by (auto simp: loop_body_def)
next
  case (Inr price)
  obtain evt p rt where t: "trading_logic cfg pos price env = (evt, p, rt)"
    by (cases "trading_logic cfg pos price env") auto
  let ?pre = "[GetSymbolTicker (symbol cfg), Log INFO (PriceMsg (symbol cfg) price pos)]"
  from Inr t assms have "pos' = p" and "ev = ?pre @ evt @ [] \<or> ev = ?pre @ evt @ [Sleep 3]"
    by (auto simp: loop_body_def Let_def split: option.splits)
  moreover have "orders ?pre = []" "orders [] = []" "orders [Sleep 3] = []"
    by (simp_all add: orders_def)
  ultimately show ?thesis using Inr t by blast
qed

lemma run_iteration_auto_shape:
  assumes "run_iteration pf self False env = (ev, self', c)"
  shows "(\<exists>e. fetch_price pf env = Inl e \<and> orders ev = [] \<and> self' = self) \<or>
         (\<exists>price evt r pre post. fetch_price pf env = Inr price \<and>
             auto_branch self price env = (evt, self', r) \<and>
             ev = pre @ evt @ post \<and> orders pre = [] \<and> orders post = [])"
proof (cases "fetch_price pf env")
  case (Inl e)
  with assms show ?thesis
    by (auto simp: run_iteration_def try_body_def orders_def split: if_splits)
next
  case (Inr price)
  obtain evt p rt where t: "auto_branch self price env = (evt, p, rt)"
    by (cases "auto_branch self price env") auto
  let ?pre = "[GetSymbolTicker (symbol self), Log INFO (PriceMsg (symbol self) price (in_position self))]"
  from Inr t assms have "self' = p"
    and "ev = ?pre @ evt @ [] \<or> ev = ?pre @ evt @ [Log INFO StoppedByUserMsg] \<or>
         (\<exists>e. ev = ?pre @ evt @ [Log ERROR (LoopErrorMsg e)])"
    by (auto simp: run_iteration_def try_body_def Let_def split: sum.splits if_splits)
  moreover have "orders ?pre = []" "orders [] = []" "orders [Log INFO StoppedByUserMsg] = []"
    "\<And>e. orders [Log ERROR (LoopErrorMsg e)] = []"
    by (simp_all add: orders_def)
  ultimately show ?thesis using Inr t by metis
qed

lemma mem_sandwich:
  assumes "orders pre = []" and "orders post = []" and "is_order x"
  shows "x \<in> set (pre @ evt @ post) \<longleftrightarrow> x \<in> set evt"
  using assms by (auto simp: orders_def filter_empty_conv)

lemma orders_sandwich:
  assumes "orders pre = []" and "orders post = []"
  shows "orders (pre @ evt @ post) = orders evt"
  using assms by (simp add: orders_append)

lemma loop_body_flag:
  assumes "loop_body pf cfg pos env = (ev, pos', r)"
  shows "(pos' \<noteq> pos \<longrightarrow>
            (\<not> pos \<and> pos' \<and> OrderMarketBuy (symbol cfg) (quantity cfg) \<in> set ev \<and> \<not> isl (market_buy env)) \<or>
            (pos \<and> \<not> pos' \<and> OrderMarketSell (symbol cfg) (quantity cfg) \<in> set ev \<and> \<not> isl (market_sell env))) \<and>
         (orders ev = [] \<longrightarrow> pos' = pos) \<and>
         (OrderMarketBuy (symbol cfg) (quantity cfg) \<in> set ev \<longrightarrow> \<not> pos \<and> pos' = (\<not> isl (market_buy env))) \<and>
         (OrderMarketSell (symbol cfg) (quantity cfg) \<in> set ev \<longrightarrow> pos \<and> pos' = isl (market_sell env)) \<and>
         (pos' \<and> \<not> pos \<longrightarrow> (\<exists>resp. Log INFO (OrderExecutedMsg True resp) \<in> set ev)) \<and>
         (\<not> pos' \<and> pos \<longrightarrow> (\<exists>resp. Log INFO (OrderExecutedMsg False resp) \<in> set ev))"
proof -
  from loop_body_shape [OF assms]
  consider (fail) e where "fetch_price pf env = Inl e" "ev = [GetSymbolTicker (symbol cfg)]" "pos' = pos"
    | (ok) price evt rt pre post where "trading_logic cfg pos price env = (evt, pos', rt)"
        "ev = pre @ evt @ post" "orders pre = []" "orders post = []"
    by blast
  then show ?thesis
  proof cases
    case fail
    then show ?thesis by simp
  next
    case ok
    note t = trading_logic_flag [OF ok(1)]
    have m: "\<And>x. is_order x \<Longrightarrow> x \<in> set ev \<longleftrightarrow> x \<in> set evt"
      using mem_sandwich [OF ok(3) ok(4)] ok(2) by simp
    have o: "orders ev = orders evt"
      using orders_sandwich [OF ok(3) ok(4)] ok(2) by simp
    have s: "set evt \<subseteq> set ev" using ok(2) by auto
    have b: "OrderMarketBuy (symbol cfg) (quantity cfg) \<in> set ev \<longleftrightarrow>
             OrderMarketBuy (symbol cfg) (quantity cfg) \<in> set evt"
      and sl: "OrderMarketSell (symbol cfg) (quantity cfg) \<in> set ev \<longleftrightarrow>
             OrderMarketSell (symbol cfg) (quantity cfg) \<in> set evt"
      by (simp_all add: m)
    from t s show ?thesis unfolding b sl o by blast
  qed
qed

lemma run_iteration_auto_flag:
  assumes "run_iteration pf self False env = (ev, self', c)"
  shows "(in_position self' \<noteq> in_position self \<longrightarrow>
            (\<not> in_position self \<and> in_position self' \<and> OrderMarketBuy (symbol self) (quantity self) \<in> set ev \<and> \<not> isl (market_buy env)) \<or>
            (in_position self \<and> \<not> in_position self' \<and> OrderMarketSell (symbol self) (quantity self) \<in> set ev \<and> \<not> isl (market_sell env))) \<and>
         (orders ev = [] \<longrightarrow> self' = self) \<and>
         (OrderMarketBuy (symbol self) (quantity self) \<in> set ev \<longrightarrow>
            \<not> in_position self \<and> in_position self' = (\<not> isl (market_buy env))) \<and>
         (OrderMarketSell (symbol self) (quantity self) \<in> set ev \<longrightarrow>
            in_position self \<and> in_position self' = isl (market_sell env)) \<and>
         (in_position self' \<and> \<not> in_position self \<longrightarrow> (\<exists>resp. Log INFO (OrderExecutedMsg True resp) \<in> set ev)) \<and>
         (\<not> in_position self' \<and> in_position self \<longrightarrow> (\<exists>resp. Log INFO (OrderExecutedMsg False resp) \<in> set ev)) \<and>
         self' = self\<lparr>in_position := in_position self'\<rparr>"
proof -
  from run_iteration_auto_shape [OF assms]
  consider (fail) e where "fetch_price pf env = Inl e" "orders ev = []" "self' = self"
    | (ok) price evt r pre post where "auto_branch self price env = (evt, self', r)"
        "ev = pre @ evt @ post" "orders pre = []" "orders post = []"
    by blast
  then show ?thesis
  proof cases
    case fail
    with no_orders_mem [OF fail(2)] show ?thesis by simp
  next
    case ok
    note t = auto_branch_flag [OF ok(1)]
    have m: "\<And>x. is_order x \<Longrightarrow> x \<in> set ev \<longleftrightarrow> x \<in> set evt"
      using mem_sandwich [OF ok(3) ok(4)] ok(2) by simp
    have o: "orders ev = orders evt"
      using orders_sandwich [OF ok(3) ok(4)] ok(2) by simp
    have s: "set evt \<subseteq> set ev" using ok(2) by auto
    have b: "OrderMarketBuy (symbol self) (quantity self) \<in> set ev \<longleftrightarrow>
             OrderMarketBuy (symbol self) (quantity self) \<in> set evt"
      and sl: "OrderMarketSell (symbol self) (quantity self) \<in> set ev \<longleftrightarrow>
             OrderMarketSell (symbol self) (quantity self) \<in> set evt"
      by (simp_all add: m)
    from t s show ?thesis unfolding b sl o by blast
  qed
qed

subsection \<open>Whole runs\<close>

lemma while_loop_bought:
  "while_loop pf cfg pos envs = (ev, pos', r) \<Longrightarrow> pos' \<Longrightarrow> \<not> pos \<Longrightarrow>
     \<exists>resp. Log INFO (OrderExecutedMsg True resp) \<in> set ev"
proof (induction envs arbitrary: pos ev)
  case Nil
  then show ?case by simp
next
  case (Cons env envs)
  obtain ev1 p1 r1 where b: "loop_body pf cfg pos env = (ev1, p1, r1)"
    by (cases "loop_body pf cfg pos env") auto
  note f = loop_body_flag [OF b]
  show ?case
  proof (cases r1)
    case (Some e)
    with b Cons.prems have "ev = ev1" "pos' = p1" by simp_all
    with f Cons.prems show ?thesis by blast
  next
    case None
    obtain ev2 p2 r2 where w: "while_loop pf cfg p1 envs = (ev2, p2, r2)"
      by (cases "while_loop pf cfg p1 envs") auto
    with b None Cons.prems have e: "ev = ev1 @ ev2" "pos' = p2" "r = r2" by simp_all
    with w have w': "while_loop pf cfg p1 envs = (ev2, pos', r)" by simp
    show ?thesis
    proof (cases p1)
      case True
      with f Cons.prems(3) e show ?thesis by auto
    next
      case False
      from Cons.IH [OF w' Cons.prems(2)] e False show ?thesis by auto
    qed
  qed
qed

lemma run_loop_auto_bought:
  "run_loop pf self False envs = (ev, self', st) \<Longrightarrow> in_position self' \<Longrightarrow> \<not> in_position self \<Longrightarrow>
     \<exists>resp. Log INFO (OrderExecutedMsg True resp) \<in> set ev"
proof (induction envs arbitrary: self ev)
  case Nil
  then show ?case by simp
next
  case (Cons env envs)
  obtain ev1 b1 c1 where b: "run_iteration pf self False env = (ev1, b1, c1)"
    by (cases "run_iteration pf self False env") auto
  note f = run_iteration_auto_flag [OF b]
  show ?case
  proof (cases "c1 = Inr Continue")
    case False
    with b Cons.prems have "ev = ev1" "self' = b1"
      by (auto split: sum.splits control.splits)
    with f Cons.prems show ?thesis by blast
  next
    case True
    obtain ev2 b2 st2 where w: "run_loop pf b1 False envs = (ev2, b2, st2)"
      by (cases "run_loop pf b1 False envs") auto
    with b True Cons.prems have e: "ev = ev1 @ ev2" "self' = b2" "st = st2" by simp_all
    with w have w': "run_loop pf b1 False envs = (ev2, self', st)" by simp
    show ?thesis
    proof (cases "in_position b1")
      case True
      with f Cons.prems(3) e show ?thesis by auto
    next
      case False
      from Cons.IH [OF w' Cons.prems(2)] e False show ?thesis by auto
    qed
  qed
qed

lemma while_loop_Nil_flag: "fst (snd (run_bot pf config testnet account [])) = False"
  by (simp add: run_bot_def Let_def split: prod.splits sum.splits)

lemma run_bot_bought:
  assumes "fst (snd (run_bot pf config testnet account envs))"
  shows "\<exists>resp. Log INFO (OrderExecutedMsg True resp) \<in> set (fst (run_bot pf config testnet account envs))"
proof -
  obtain ev0 b0 where g: "get_account_balance pf account = (ev0, b0)"
    by (cases "get_account_balance pf account") auto
  show ?thesis
  proof (cases b0)
    case (Inl e)
    with g assms show ?thesis by (simp add: run_bot_def Let_def)
  next
    case (Inr bal)
    show ?thesis
    proof (cases "read_settings pf config")
      case (Inl e)
      with g Inr assms show ?thesis by (simp add: run_bot_def Let_def)
    next
      case (Inr cfg)
      obtain ev p r where w: "while_loop pf cfg False envs = (ev, p, r)"
        by (cases "while_loop pf cfg False envs") auto
      from g \<open>b0 = Inr bal\<close> Inr w assms have p: "p"
        by (auto simp: run_bot_def Let_def split: option.splits if_splits)
      from while_loop_bought [OF w p] obtain resp
        where "Log INFO (OrderExecutedMsg True resp) \<in> set ev" by auto
      with g \<open>b0 = Inr bal\<close> Inr w show ?thesis
        by (auto simp: run_bot_def Let_def split: option.splits if_splits)
    qed
  qed
qed

lemma run_auto_bought:
  assumes "in_position (fst (snd (run pf self False account envs)))" and "\<not> in_position self"
  shows "\<exists>resp. Log INFO (OrderExecutedMsg True resp) \<in> set (fst (run pf self False account envs))"
proof -
  obtain ev0 b0 where g: "get_balance pf account = (ev0, b0)"
    by (cases "get_balance pf account") auto
  show ?thesis
  proof (cases b0)
    case (Inl e)
    with g assms show ?thesis by (simp add: run_def Let_def)
  next
    case (Inr bal)
    obtain ev b st where w: "run_loop pf self False envs = (ev, b, st)"
      by (cases "run_loop pf self False envs") auto
    from g Inr w assms have p: "in_position b"
      by (auto simp: run_def Let_def split: status.splits if_splits)
    from run_loop_auto_bought [OF w p assms(2)] obtain resp
      where "Log INFO (OrderExecutedMsg True resp) \<in> set ev" by auto
    with g Inr w show ?thesis
      by (auto simp: run_def Let_def split: status.splits if_splits)
  qed
qed

text \<open>
  Claim C2. The flag starts as \<open>False\<close> in both programs. In one pass of either loop
  it changes only from \<open>False\<close> to \<open>True\<close> with a market buy that was submitted and
  returned, or from \<open>True\<close> to \<open>False\<close> with a market sell that was submitted and
  returned; a pass without an order, or with an order that raised, leaves it as it
  was, and in the automatic loops an order that returned sets it. Over a whole run, a
  flag that is on at the end means that the trace holds the record of an executed
  buy.
\<close>

theorem position_flag_lifecycle:
  fixes cfg :: config
  assumes "loop_body pf cfg pos env = (ev, pos', r)"
    and "run_iteration pf self ui_mode env = (ev2, self', c)"
  shows
   "in_position (BasicBot_init symb bp sp qty) = False \<and>
    fst (snd (run_bot pf config testnet account [])) = False \<and>
    (pos' \<noteq> pos \<longrightarrow>
       (\<not> pos \<and> pos' \<and> OrderMarketBuy (symbol cfg) (quantity cfg) \<in> set ev \<and> \<not> isl (market_buy env)) \<or>
       (pos \<and> \<not> pos' \<and> OrderMarketSell (symbol cfg) (quantity cfg) \<in> set ev \<and> \<not> isl (market_sell env))) \<and>
    (orders ev = [] \<longrightarrow> pos' = pos) \<and>
    (OrderMarketBuy (symbol cfg) (quantity cfg) \<in> set ev \<and> isl (market_buy env) \<longrightarrow> pos' = pos) \<and>
    (OrderMarketSell (symbol cfg) (quantity cfg) \<in> set ev \<and> isl (market_sell env) \<longrightarrow> pos' = pos) \<and>
    (OrderMarketBuy (symbol cfg) (quantity cfg) \<in> set ev \<and> \<not> isl (market_buy env) \<longrightarrow> pos') \<and>
    (OrderMarketSell (symbol cfg) (quantity cfg) \<in> set ev \<and> \<not> isl (market_sell env) \<longrightarrow> \<not> pos') \<and>
    (in_position self' \<noteq> in_position self \<longrightarrow>
       (\<not> in_position self \<and> in_position self' \<and>
          OrderMarketBuy (symbol self) (quantity self) \<in> set ev2 \<and> \<not> isl (market_buy env)) \<or>
       (in_position self \<and> \<not> in_position self' \<and>
          OrderMarketSell (symbol self) (quantity self) \<in> set ev2 \<and> \<not> isl (market_sell env))) \<and>
    (orders ev2 = [] \<longrightarrow> in_position self' = in_position self) \<and>
    (OrderMarketBuy (symbol self) (quantity self) \<in> set ev2 \<and> isl (market_buy env) \<longrightarrow>
       in_position self' = in_position self) \<and>
    (OrderMarketSell (symbol self) (quantity self) \<in> set ev2 \<and> isl (market_sell env) \<longrightarrow>
       in_position self' = in_position self) \<and>
    (\<not> ui_mode \<and> OrderMarketBuy (symbol self) (quantity self) \<in> set ev2 \<and> \<not> isl (market_buy env) \<longrightarrow>
       in_position self') \<and>
    (\<not> ui_mode \<and> OrderMarketSell (symbol self) (quantity self) \<in> set ev2 \<and> \<not> isl (market_sell env) \<longrightarrow>
       \<not> in_position self') \<and>
    (fst (snd (run_bot pf config testnet account envs)) \<longrightarrow>
       (\<exists>resp. Log INFO (OrderExecutedMsg True resp) \<in> set (fst (run_bot pf config testnet account envs)))) \<and>
    (in_position (fst (snd (run pf (BasicBot_init symb bp sp qty) ui_mode account envs))) \<longrightarrow>
       (\<exists>resp. Log INFO (OrderExecutedMsg True resp)
           \<in> set (fst (run pf (BasicBot_init symb bp sp qty) ui_mode account envs))))"
proof -
  have init: "in_position (BasicBot_init symb bp sp qty) = False"
    by (simp add: BasicBot_init_def)
  note b = loop_body_flag [OF assms(1)]
  have t: "(in_position self' \<noteq> in_position self \<longrightarrow>
       (\<not> in_position self \<and> in_position self' \<and>
          OrderMarketBuy (symbol self) (quantity self) \<in> set ev2 \<and> \<not> isl (market_buy env)) \<or>
       (in_position self \<and> \<not> in_position self' \<and>
          OrderMarketSell (symbol self) (quantity self) \<in> set ev2 \<and> \<not> isl (market_sell env))) \<and>
    (orders ev2 = [] \<longrightarrow> in_position self' = in_position self) \<and>
    (OrderMarketBuy (symbol self) (quantity self) \<in> set ev2 \<and> isl (market_buy env) \<longrightarrow>
       in_position self' = in_position self) \<and>
    (OrderMarketSell (symbol self) (quantity self) \<in> set ev2 \<and> isl (market_sell env) \<longrightarrow>
       in_position self' = in_position self) \<and>
    (\<not> ui_mode \<and> OrderMarketBuy (symbol self) (quantity self) \<in> set ev2 \<and> \<not> isl (market_buy env) \<longrightarrow>
       in_position self') \<and>
    (\<not> ui_mode \<and> OrderMarketSell (symbol self) (quantity self) \<in> set ev2 \<and> \<not> isl (market_sell env) \<longrightarrow>
       \<not> in_position self')"
  proof (cases ui_mode)
    case True
    with assms(2) run_iteration_ui_self [of pf self env] have "self' = self" by simp
    with True show ?thesis by simp
  next
    case False
    with assms(2) have "run_iteration pf self False env = (ev2, self', c)" by simp
    from run_iteration_auto_flag [OF this] False show ?thesis by blast
  qed
  have r: "in_position (fst (snd (run pf (BasicBot_init symb bp sp qty) ui_mode account envs))) \<longrightarrow>
       (\<exists>resp. Log INFO (OrderExecutedMsg True resp)
           \<in> set (fst (run pf (BasicBot_init symb bp sp qty) ui_mode account envs)))"
  proof (cases ui_mode)
    case True
    then show ?thesis by (simp add: run_ui_self init)
  next
    case False
    with run_auto_bought [of pf "BasicBot_init symb bp sp qty" account envs] init
    show ?thesis by simp
  qed
  from init while_loop_Nil_flag [of pf config testnet account] b t r
    run_bot_bought [of pf config testnet account envs]
  show ?thesis by blast
qed

lemmas run_defs = loop_body_def trading_logic_def execute_safe_trade_def send_alert_def
  fetch_price_def float_table_def evaluate_def float_gt_def Let_def
  run_iteration_def try_body_def auto_branch_def execute_trade_def

text \<open>A pass that buys at 59999.99 under the thresholds 60000 and 68000.\<close>

theorem position_flag_lifecycle_witness:
  "loop_body (float_table [(''59999.99'', Fin 59999.99)])
     \<lparr>symbol = ''BTCUSDT'', buy_price = Fin 60000, sell_price = Fin 68000, quantity = Fin 0.001\<rparr>
     False
     \<lparr>ticker = Inr ''59999.99'', market_buy = Inr ''filled'', market_sell = Inl ConnectionError,
        create_order = Inl ConnectionError, create_oco_order = Inl ConnectionError,
        inputs = [], sleep = None\<rparr>
   = ([GetSymbolTicker ''BTCUSDT'', Log INFO (PriceMsg ''BTCUSDT'' (Fin 59999.99) False),
       OrderMarketBuy ''BTCUSDT'' (Fin 0.001), Log INFO (OrderExecutedMsg True ''filled''),
       Log WARNING (AlertMsg (BoughtAlert (Fin 0.001) ''BTCUSDT'' (Fin 59999.99))), Sleep 3],
      True, None) \<and>
   run_iteration (float_table [(''59999.99'', Fin 59999.99)])
     \<lparr>symbol = ''BTCUSDT'', buy_price = Fin 60000, sell_price = Fin 68000, quantity = Fin 0.001,
        in_position = False\<rparr>
     False
     \<lparr>ticker = Inr ''59999.99'', market_buy = Inr ''filled'', market_sell = Inl ConnectionError,
        create_order = Inl ConnectionError, create_oco_order = Inl ConnectionError,
        inputs = [], sleep = None\<rparr>
   = ([GetSymbolTicker ''BTCUSDT'', Log INFO (PriceMsg ''BTCUSDT'' (Fin 59999.99) False),
       OrderMarketBuy ''BTCUSDT'' (Fin 0.001), Log INFO (OrderExecutedMsg True ''filled''),
       Log INFO (BoughtMsg (Fin 0.001) ''BTCUSDT'' (Fin 59999.99)), Sleep 3],
      \<lparr>symbol = ''BTCUSDT'', buy_price = Fin 60000, sell_price = Fin 68000, quantity = Fin 0.001,
        in_position = True\<rparr>, Inr Continue) \<and>
   \<not> isl (market_buy
     \<lparr>ticker = Inr ''59999.99'', market_buy = Inr ''filled'', market_sell = Inl ConnectionError,
        create_order = Inl ConnectionError, create_oco_order = Inl ConnectionError,
        inputs = [], sleep = None\<rparr>)"
proof -
  let ?pf = "float_table [(''59999.99'', Fin 59999.99)]"
  let ?cfg = "\<lparr>symbol = ''BTCUSDT'', buy_price = Fin 60000, sell_price = Fin 68000, quantity = Fin 0.001\<rparr>"
  let ?self = "\<lparr>symbol = ''BTCUSDT'', buy_price = Fin 60000, sell_price = Fin 68000, quantity = Fin 0.001,
        in_position = False\<rparr>"
  let ?env = "\<lparr>ticker = Inr ''59999.99'', market_buy = Inr ''filled'', market_sell = Inl ConnectionError,
        create_order = Inl ConnectionError, create_oco_order = Inl ConnectionError,
        inputs = [], sleep = None\<rparr>"
  have h1: "loop_body ?pf ?cfg False ?env
    = ([GetSymbolTicker ''BTCUSDT'', Log INFO (PriceMsg ''BTCUSDT'' (Fin 59999.99) False),
       OrderMarketBuy ''BTCUSDT'' (Fin 0.001), Log INFO (OrderExecutedMsg True ''filled''),
       Log WARNING (AlertMsg (BoughtAlert (Fin 0.001) ''BTCUSDT'' (Fin 59999.99))), Sleep 3],
      True, None)"
    by (simp add: run_defs)
  have h2: "run_iteration ?pf ?self False ?env
    = ([GetSymbolTicker ''BTCUSDT'', Log INFO (PriceMsg ''BTCUSDT'' (Fin 59999.99) False),
       OrderMarketBuy ''BTCUSDT'' (Fin 0.001), Log INFO (OrderExecutedMsg True ''filled''),
       Log INFO (BoughtMsg (Fin 0.001) ''BTCUSDT'' (Fin 59999.99)), Sleep 3],
      \<lparr>symbol = ''BTCUSDT'', buy_price = Fin 60000, sell_price = Fin 68000, quantity = Fin 0.001,
        in_position = True\<rparr>, Inr Continue)"
    by (simp add: run_defs)
  from position_flag_lifecycle [OF h1 h2] h1 h2 show ?thesis by simp
qed

text \<open>
  Witness of claim C7: the same price and thresholds with another symbol, another
  quantity, a failing exchange and an interrupted sleep.
\<close>

theorem decision_pure_witness:
  "fetch_price (float_table [(''59999.99'', Fin 59999.99)])
     \<lparr>ticker = Inr ''59999.99'', market_buy = Inr ''filled'', market_sell = Inl ConnectionError,
        create_order = Inl ConnectionError, create_oco_order = Inl ConnectionError,
        inputs = [], sleep = None\<rparr> = Inr (Fin 59999.99) \<and>
   fetch_price (float_table [(''59999.99'', Fin 59999.99)])
     \<lparr>ticker = Inr ''59999.99'', market_buy = Inl BinanceAPIException, market_sell = Inr ''filled'',
        create_order = Inl ConnectionError, create_oco_order = Inl ConnectionError,
        inputs = [], sleep = Some KeyboardInterrupt\<rparr> = Inr (Fin 59999.99) \<and>
   requested (fst (loop_body (float_table [(''59999.99'', Fin 59999.99)])
     \<lparr>symbol = ''BTCUSDT'', buy_price = Fin 60000, sell_price = Fin 68000, quantity = Fin 0.001\<rparr>
     False
     \<lparr>ticker = Inr ''59999.99'', market_buy = Inr ''filled'', market_sell = Inl ConnectionError,
        create_order = Inl ConnectionError, create_oco_order = Inl ConnectionError,
        inputs = [], sleep = None\<rparr>))
   = requested (fst (loop_body (float_table [(''59999.99'', Fin 59999.99)])
     \<lparr>symbol = ''ETHUSDT'', buy_price = Fin 60000, sell_price = Fin 68000, quantity = Fin 2\<rparr>
     False
     \<lparr>ticker = Inr ''59999.99'', market_buy = Inl BinanceAPIException, market_sell = Inr ''filled'',
        create_order = Inl ConnectionError, create_oco_order = Inl ConnectionError,
        inputs = [], sleep = Some KeyboardInterrupt\<rparr>))"
proof -
  let ?pf = "float_table [(''59999.99'', Fin 59999.99)]"
  let ?env = "\<lparr>ticker = Inr ''59999.99'', market_buy = Inr ''filled'', market_sell = Inl ConnectionError,
        create_order = Inl ConnectionError, create_oco_order = Inl ConnectionError,
        inputs = [], sleep = None\<rparr>"
  let ?env' = "\<lparr>ticker = Inr ''59999.99'', market_buy = Inl BinanceAPIException, market_sell = Inr ''filled'',
        create_order = Inl ConnectionError, create_oco_order = Inl ConnectionError,
        inputs = [], sleep = Some KeyboardInterrupt\<rparr>"
  have h1: "fetch_price ?pf ?env = Inr (Fin 59999.99)"
    by (simp add: fetch_price_def float_table_def)
  have h2: "fetch_price ?pf ?env' = Inr (Fin 59999.99)"
    by (simp add: fetch_price_def float_table_def)
  from decision_pure [OF h1 h2,
      of "\<lparr>symbol = ''BTCUSDT'', buy_price = Fin 60000, sell_price = Fin 68000, quantity = Fin 0.001\<rparr>"
         "\<lparr>symbol = ''ETHUSDT'', buy_price = Fin 60000, sell_price = Fin 68000, quantity = Fin 2\<rparr>"
         "\<lparr>symbol = ''BTCUSDT'', buy_price = Fin 60000, sell_price = Fin 68000, quantity = Fin 0.001,
            in_position = False\<rparr>"
         "\<lparr>symbol = ''ETHUSDT'', buy_price = Fin 60000, sell_price = Fin 68000, quantity = Fin 2,
            in_position = False\<rparr>" False]
    h1 h2
  show ?thesis by simp
qed

text \<open>
  Claim C9. In the interactive mode no pass changes the object, so the flag keeps the
  value \<open>False\<close> that \<open>__init__\<close> gave it through the whole run, also after a manual
  buy or sell that the exchange executed.
\<close>

theorem interactive_keeps_flag:
  "fst (snd (run_iteration pf self True env)) = self \<and>
   in_position (fst (snd (run pf (BasicBot_init symb bp sp qty) True account envs))) = False"
  by (simp add: run_iteration_ui_self run_ui_self BasicBot_init_def)

lemma lower_strip_b: "lower (strip ''B\<newline>'') = ''b''"
  by code_simp

text \<open>A manual buy that succeeds: the order is executed and the flag stays off.\<close>

theorem interactive_keeps_flag_witness:
  "run_iteration (float_table [(''59999.99'', Fin 59999.99)])
     \<lparr>symbol = ''BTCUSDT'', buy_price = Fin 60000, sell_price = Fin 68000, quantity = Fin 0.001,
        in_position = False\<rparr>
     True
     \<lparr>ticker = Inr ''59999.99'', market_buy = Inr ''filled'', market_sell = Inl ConnectionError,
        create_order = Inl ConnectionError, create_oco_order = Inl ConnectionError,
        inputs = [Inr ''B\<newline>''], sleep = None\<rparr>
   = ([GetSymbolTicker ''BTCUSDT'', Log INFO (PriceMsg ''BTCUSDT'' (Fin 59999.99) False), Input,
       OrderMarketBuy ''BTCUSDT'' (Fin 0.001), Log INFO (OrderExecutedMsg True ''filled'')],
      \<lparr>symbol = ''BTCUSDT'', buy_price = Fin 60000, sell_price = Fin 68000, quantity = Fin 0.001,
        in_position = False\<rparr>, Inr Continue)"
  using interactive_keeps_flag [of "float_table [(''59999.99'', Fin 59999.99)]"
     "\<lparr>symbol = ''BTCUSDT'', buy_price = Fin 60000, sell_price = Fin 68000, quantity = Fin 0.001,
        in_position = False\<rparr>"
     "\<lparr>ticker = Inr ''59999.99'', market_buy = Inr ''filled'', market_sell = Inl ConnectionError,
        create_order = Inl ConnectionError, create_oco_order = Inl ConnectionError,
        inputs = [Inr ''B\<newline>''], sleep = None\<rparr>"]
  by (simp add: run_iteration_def try_body_def ui_branch_def execute_trade_def fetch_price_def
        float_table_def Let_def lower_strip_b)

section \<open>Failures\<close>

text \<open>
  Claim C3, as stated, fails in trading\_bot.py, which has no alert: a market buy that
  raises is logged at error level only, and the pass emits no warning-level record.
\<close>

theorem order_failure_counterexample:
  "run_iteration (float_table [(''59999.99'', Fin 59999.99)])
     \<lparr>symbol = ''BTCUSDT'', buy_price = Fin 60000, sell_price = Fin 68000, quantity = Fin 0.001,
        in_position = False\<rparr>
     False
     \<lparr>ticker = Inr ''59999.99'', market_buy = Inl BinanceAPIException, market_sell = Inl ConnectionError,
        create_order = Inl ConnectionError, create_oco_order = Inl ConnectionError,
        inputs = [], sleep = None\<rparr>
   = ([GetSymbolTicker ''BTCUSDT'', Log INFO (PriceMsg ''BTCUSDT'' (Fin 59999.99) False),
       OrderMarketBuy ''BTCUSDT'' (Fin 0.001), Log ERROR (TradeFailedMsg BinanceAPIException),
       Sleep 3],
      \<lparr>symbol = ''BTCUSDT'', buy_price = Fin 60000, sell_price = Fin 68000, quantity = Fin 0.001,
        in_position = False\<rparr>, Inr Continue) \<and>
   WARNING \<notin> set (levels (fst (execute_trade
     \<lparr>symbol = ''BTCUSDT'', buy_price = Fin 60000, sell_price = Fin 68000, quantity = Fin 0.001,
        in_position = False\<rparr>
     True
     \<lparr>ticker = Inr ''59999.99'', market_buy = Inl BinanceAPIException, market_sell = Inl ConnectionError,
        create_order = Inl ConnectionError, create_oco_order = Inl ConnectionError,
        inputs = [], sleep = None\<rparr>)))"
  by (simp add: run_defs)

text \<open>
  Claim C3, amended. When the market order of a pass raises an \<open>Exception\<close>, the
  order call returns \<open>False\<close>, the flag is left as it was, one error-level record is
  emitted, and the pass goes on to its sleep and ends without raising. In bot.py one
  warning-level alert record follows the error record; in trading\_bot.py no
  warning-level record is emitted.
\<close>

theorem order_failure:
  fixes cfg :: config
  assumes "(if is_buy then market_buy env else market_sell env) = Inl e" and "is_Exception e"
  shows
   "execute_safe_trade symb qty is_buy env =
      ([if is_buy then OrderMarketBuy symb qty else OrderMarketSell symb qty,
        Log ERROR (TradeFailedMsg e),
        Log WARNING (AlertMsg (TradeFailedAlert symb qty is_buy))], Inr False) \<and>
    execute_trade self is_buy env =
      ([if is_buy then OrderMarketBuy (symbol self) (quantity self)
        else OrderMarketSell (symbol self) (quantity self),
        Log ERROR (TradeFailedMsg e)], Inr False) \<and>
    (fetch_price pf env = Inr price \<and>
     evaluate price pos cfg = (if is_buy then RequestBuy else RequestSell) \<longrightarrow>
       loop_body pf cfg pos env =
         ([GetSymbolTicker (symbol cfg), Log INFO (PriceMsg (symbol cfg) price pos),
           if is_buy then OrderMarketBuy (symbol cfg) (quantity cfg)
           else OrderMarketSell (symbol cfg) (quantity cfg),
           Log ERROR (TradeFailedMsg e),
           Log WARNING (AlertMsg (TradeFailedAlert (symbol cfg) (quantity cfg) is_buy)),
           Sleep 3], pos, sleep env)) \<and>
    (fetch_price pf env = Inr price \<and> sleep env = None \<and>
     evaluate price (in_position self) self = (if is_buy then RequestBuy else RequestSell) \<longrightarrow>
       run_iteration pf self False env =
         ([GetSymbolTicker (symbol self), Log INFO (PriceMsg (symbol self) price (in_position self)),
           if is_buy then OrderMarketBuy (symbol self) (quantity self)
           else OrderMarketSell (symbol self) (quantity self),
           Log ERROR (TradeFailedMsg e),
           Sleep 3], self, Inr Continue))"
proof -
  have s: "execute_safe_trade symb qty is_buy env =
      ([if is_buy then OrderMarketBuy symb qty else OrderMarketSell symb qty,
        Log ERROR (TradeFailedMsg e),
        Log WARNING (AlertMsg (TradeFailedAlert symb qty is_buy))], Inr False)" for symb qty
    using assms by (simp add: execute_safe_trade_def send_alert_def Let_def)
  have t: "execute_trade self is_buy env =
      ([if is_buy then OrderMarketBuy (symbol self) (quantity self)
        else OrderMarketSell (symbol self) (quantity self),
        Log ERROR (TradeFailedMsg e)], Inr False)"
    using assms by (simp add: execute_trade_def Let_def)
  have l: "loop_body pf cfg pos env =
         ([GetSymbolTicker (symbol cfg), Log INFO (PriceMsg (symbol cfg) price pos),
           if is_buy then OrderMarketBuy (symbol cfg) (quantity cfg)
           else OrderMarketSell (symbol cfg) (quantity cfg),
           Log ERROR (TradeFailedMsg e),
           Log WARNING (AlertMsg (TradeFailedAlert (symbol cfg) (quantity cfg) is_buy)),
           Sleep 3], pos, sleep env)"
    if "fetch_price pf env = Inr price"
      and "evaluate price pos cfg = (if is_buy then RequestBuy else RequestSell)"
  proof (cases is_buy)
    case True
    with that s [of "symbol cfg" "quantity cfg"] show ?thesis
      by (simp add: loop_body_def trading_logic_def Let_def)
  next
    case False
    with that s [of "symbol cfg" "quantity cfg"] show ?thesis
      by (simp add: loop_body_def trading_logic_def Let_def)
  qed
  have r: "run_iteration pf self False env =
         ([GetSymbolTicker (symbol self), Log INFO (PriceMsg (symbol self) price (in_position self)),
           if is_buy then OrderMarketBuy (symbol self) (quantity self)
           else OrderMarketSell (symbol self) (quantity self),
           Log ERROR (TradeFailedMsg e),
           Sleep 3], self, Inr Continue)"
    if "fetch_price pf env = Inr price" and "sleep env = None"
      and "evaluate price (in_position self) self = (if is_buy then RequestBuy else RequestSell)"
  proof (cases is_buy)
    case True
    with that t show ?thesis
      by (simp add: run_iteration_def try_body_def auto_branch_def Let_def)
  next
    case False
    with that t show ?thesis
      by (simp add: run_iteration_def try_body_def auto_branch_def Let_def)
  qed
  from s t l r show ?thesis by blast
qed

text \<open>A buy at 59999.99 that the exchange rejects, in bot.py.\<close>

theorem order_failure_witness:
  "is_Exception BinanceAPIException \<and>
   execute_safe_trade ''BTCUSDT'' (Fin 0.001) True
     \<lparr>ticker = Inr ''59999.99'', market_buy = Inl BinanceAPIException, market_sell = Inl ConnectionError,
        create_order = Inl ConnectionError, create_oco_order = Inl ConnectionError,
        inputs = [], sleep = None\<rparr>
   = ([OrderMarketBuy ''BTCUSDT'' (Fin 0.001), Log ERROR (TradeFailedMsg BinanceAPIException),
       Log WARNING (AlertMsg (TradeFailedAlert ''BTCUSDT'' (Fin 0.001) True))], Inr False) \<and>
   loop_body (float_table [(''59999.99'', Fin 59999.99)])
     \<lparr>symbol = ''BTCUSDT'', buy_price = Fin 60000, sell_price = Fin 68000, quantity = Fin 0.001\<rparr>
     False
     \<lparr>ticker = Inr ''59999.99'', market_buy = Inl BinanceAPIException, market_sell = Inl ConnectionError,
        create_order = Inl ConnectionError, create_oco_order = Inl ConnectionError,
        inputs = [], sleep = None\<rparr>
   = ([GetSymbolTicker ''BTCUSDT'', Log INFO (PriceMsg ''BTCUSDT'' (Fin 59999.99) False),
       OrderMarketBuy ''BTCUSDT'' (Fin 0.001), Log ERROR (TradeFailedMsg BinanceAPIException),
       Log WARNING (AlertMsg (TradeFailedAlert ''BTCUSDT'' (Fin 0.001) True)),
       Sleep 3], False, None)"
proof -
  let ?env = "\<lparr>ticker = Inr ''59999.99'', market_buy = Inl BinanceAPIException, market_sell = Inl ConnectionError,
        create_order = Inl ConnectionError, create_oco_order = Inl ConnectionError,
        inputs = [], sleep = None\<rparr>"
  have h1: "(if True then market_buy ?env else market_sell ?env) = Inl BinanceAPIException"
    by simp
  have h2: "is_Exception BinanceAPIException" by simp
  from order_failure [OF h1 h2, of "''BTCUSDT''" "Fin 0.001" _
      "float_table [(''59999.99'', Fin 59999.99)]" "Fin 59999.99" False
      "\<lparr>symbol = ''BTCUSDT'', buy_price = Fin 60000, sell_price = Fin 68000, quantity = Fin 0.001\<rparr>"]
  show ?thesis
    by (simp add: fetch_price_def float_table_def evaluate_def)
qed

lemma default_settings:
  "read_settings (float_table [(''60000'', Fin 60000), (''68000'', Fin 68000), (''0.001'', Fin 0.001)])
     default_config
   = Inr \<lparr>symbol = ''BTCUSDT'', buy_price = Fin 60000, sell_price = Fin 68000, quantity = Fin 0.001\<rparr>"
  by (simp add: read_settings_def default_config_def float_table_def)

text \<open>
  Claim C4, as stated, fails in bot.py: the price fetch is under the outer \<open>try\<close>
  only, so a connection error in the first pass ends \<open>run_bot\<close> with a critical
  record and a crash alert; no error-level record is emitted and the second pass never
  runs.
\<close>

theorem price_fetch_counterexample:
  "run_bot (float_table [(''60000'', Fin 60000), (''68000'', Fin 68000), (''0.001'', Fin 0.001)])
     default_config True (Inr [])
     [\<lparr>ticker = Inl ConnectionError, market_buy = Inr ''filled'', market_sell = Inr ''filled'',
         create_order = Inr ''placed'', create_oco_order = Inr ''placed'', inputs = [], sleep = None\<rparr>,
      \<lparr>ticker = Inr ''60000'', market_buy = Inr ''filled'', market_sell = Inr ''filled'',
         create_order = Inr ''placed'', create_oco_order = Inr ''placed'', inputs = [], sleep = None\<rparr>]
   = ([Log INFO StartingMsg, Log INFO (ModeMsg True), GetAccount, Log INFO (BalanceMsg Map.empty),
       GetSymbolTicker ''BTCUSDT'', Log CRITICAL (FatalMsg ConnectionError),
       Log WARNING (AlertMsg (BotCrashedAlert ConnectionError))],
      False, Stopped)"
  by (simp add: run_bot_def get_account_balance_def default_settings [simplified] loop_body_def fetch_price_def
        send_alert_def Let_def)

text \<open>
  Claim C4, amended. When the price fetch raises an \<open>Exception\<close>, no order is
  submitted in that pass and the flag is unchanged. In trading\_bot.py exactly one log
  record is emitted, at error level, and the loop continues with the next pass. In
  bot.py the exception leaves the loop: \<open>run_bot\<close> emits one critical record and one
  crash alert and returns.
\<close>

theorem price_fetch_failure:
  fixes cfg :: config
  assumes "fetch_price pf env = Inl e" and "is_Exception e"
  shows
   "snd (run_iteration pf self ui_mode env) = (self, Inr Continue) \<and>
    orders (fst (run_iteration pf self ui_mode env)) = [] \<and>
    levels (fst (run_iteration pf self ui_mode env)) = [ERROR] \<and>
    Log ERROR (LoopErrorMsg e) \<in> set (fst (run_iteration pf self ui_mode env)) \<and>
    loop_body pf cfg pos env = ([GetSymbolTicker (symbol cfg)], pos, Some e) \<and>
    while_loop pf cfg pos (env # envs) = ([GetSymbolTicker (symbol cfg)], pos, Some e) \<and>
    (get_account_balance pf account = (ev0, Inr bal) \<and> read_settings pf config = Inr cfg \<longrightarrow>
       run_bot pf config testnet account (env # envs) =
         ([Log INFO StartingMsg, Log INFO (ModeMsg testnet)] @ ev0 @
          [Log INFO (BalanceMsg bal), GetSymbolTicker (symbol cfg),
           Log CRITICAL (FatalMsg e), Log WARNING (AlertMsg (BotCrashedAlert e))],
          False, Stopped))"
proof -
  have ne: "e \<noteq> KeyboardInterrupt" using assms(2) by auto
  have i: "run_iteration pf self ui_mode env =
             ([GetSymbolTicker (symbol self), Log ERROR (LoopErrorMsg e)], self, Inr Continue)"
    using assms ne by (simp add: run_iteration_def try_body_def)
  have b: "loop_body pf cfg pos env = ([GetSymbolTicker (symbol cfg)], pos, Some e)" for pos
    using assms by (simp add: loop_body_def)
  have w: "while_loop pf cfg pos (env # envs) = ([GetSymbolTicker (symbol cfg)], pos, Some e)" for pos
    by (simp add: b)
  have r: "run_bot pf config testnet account (env # envs) =
         ([Log INFO StartingMsg, Log INFO (ModeMsg testnet)] @ ev0 @
          [Log INFO (BalanceMsg bal), GetSymbolTicker (symbol cfg),
           Log CRITICAL (FatalMsg e), Log WARNING (AlertMsg (BotCrashedAlert e))],
          False, Stopped)"
    if "get_account_balance pf account = (ev0, Inr bal)" and "read_settings pf config = Inr cfg"
    using that assms(2) ne w [of False] by (simp add: run_bot_def send_alert_def Let_def)
  from i b w r show ?thesis by (simp add: orders_def)
qed

text \<open>A connection error at the price fetch, in trading\_bot.py.\<close>

theorem price_fetch_failure_witness:
  "is_Exception ConnectionError \<and>
   fetch_price (float_table [(''60000'', Fin 60000)])
     \<lparr>ticker = Inl ConnectionError, market_buy = Inr ''filled'', market_sell = Inr ''filled'',
        create_order = Inr ''placed'', create_oco_order = Inr ''placed'', inputs = [], sleep = None\<rparr>
     = Inl ConnectionError \<and>
   snd (run_iteration (float_table [(''60000'', Fin 60000)])
     \<lparr>symbol = ''BTCUSDT'', buy_price = Fin 60000, sell_price = Fin 68000, quantity = Fin 0.001,
        in_position = False\<rparr>
     False
     \<lparr>ticker = Inl ConnectionError, market_buy = Inr ''filled'', market_sell = Inr ''filled'',
        create_order = Inr ''placed'', create_oco_order = Inr ''placed'', inputs = [], sleep = None\<rparr>)
   = (\<lparr>symbol = ''BTCUSDT'', buy_price = Fin 60000, sell_price = Fin 68000, quantity = Fin 0.001,
        in_position = False\<rparr>, Inr Continue) \<and>
   levels (fst (run_iteration (float_table [(''60000'', Fin 60000)])
     \<lparr>symbol = ''BTCUSDT'', buy_price = Fin 60000, sell_price = Fin 68000, quantity = Fin 0.001,
        in_position = False\<rparr>
     False
     \<lparr>ticker = Inl ConnectionError, market_buy = Inr ''filled'', market_sell = Inr ''filled'',
        create_order = Inr ''placed'', create_oco_order = Inr ''placed'', inputs = [], sleep = None\<rparr>))
   = [ERROR]"
proof -
  let ?env = "\<lparr>ticker = Inl ConnectionError, market_buy = Inr ''filled'', market_sell = Inr ''filled'',
        create_order = Inr ''placed'', create_oco_order = Inr ''placed'', inputs = [], sleep = None\<rparr>"
  have h1: "fetch_price (float_table [(''60000'', Fin 60000)]) ?env = Inl ConnectionError"
    by (simp add: fetch_price_def)
  have h2: "is_Exception ConnectionError" by simp
  from price_fetch_failure [OF h1 h2] h1 h2 show ?thesis by simp
qed

section \<open>Missing configuration file\<close>

lemma lower_True: "lower ''True'' = ''true''"
  by code_simp

text \<open>
  Claim C8, as stated, fails: the fallback is not silent, since bot.py prints a
  warning and trading\_bot.py logs one, and the credentials that trading\_bot.py falls
  back to are empty strings, not the placeholders of bot.py.
\<close>

theorem missing_env_counterexample:
  "fst (load_config (Inl FileNotFoundError))
     = [Print ''Warning: No .env file found. Using default testnet config.''] \<and>
   fst (load_env (Inl FileNotFoundError)) = [Log WARNING EnvNotFoundMsg] \<and>
   arg_defaults (float_table [(''60000'', Fin 60000), (''68000'', Fin 68000), (''0.001'', Fin 0.001)])
     Map.empty
   = Inr \<lparr>arg_api_key = [], arg_api_secret = [], arg_symbol = ''BTCUSDT'',
          arg_buy = Fin 60000, arg_sell = Fin 68000, arg_qty = Fin 0.001,
          arg_testnet = True, arg_ui = False\<rparr>"
  by (simp add: load_config_def load_env_def arg_defaults_def dict_get_def float_table_def lower_True)

text \<open>
  Claim C8, amended. When \<open>.env\<close> is missing, loading does not raise. bot.py prints
  a warning and uses its built-in dictionary: the placeholder credentials
  \<open>your_testnet_key\<close> and \<open>your_testnet_secret\<close>, testnet \<open>True\<close>, symbol
  \<open>BTCUSDT\<close>, thresholds \<open>60000\<close> and \<open>68000\<close>, quantity \<open>0.001\<close>.
  trading\_bot.py logs a warning and gets the empty dictionary, so the command line
  defaults apply: empty credentials, testnet on, and the same symbol, thresholds and
  quantity.
\<close>

theorem missing_env_defaults:
  assumes "pf ''60000'' = Inr b" and "pf ''68000'' = Inr s" and "pf ''0.001'' = Inr q"
  shows
   "load_config (Inl FileNotFoundError) =
      ([Print ''Warning: No .env file found. Using default testnet config.''], Inr default_config) \<and>
    dom default_config = {''BINANCE_API_KEY'', ''BINANCE_API_SECRET'', ''USE_TESTNET'', ''SYMBOL'',
                          ''BUY_THRESHOLD'', ''SELL_THRESHOLD'', ''TRADE_QUANTITY''} \<and>
    default_config ''BINANCE_API_KEY'' = Some ''your_testnet_key'' \<and>
    default_config ''BINANCE_API_SECRET'' = Some ''your_testnet_secret'' \<and>
    default_config ''USE_TESTNET'' = Some ''True'' \<and>
    default_config ''SYMBOL'' = Some ''BTCUSDT'' \<and>
    default_config ''BUY_THRESHOLD'' = Some ''60000'' \<and>
    default_config ''SELL_THRESHOLD'' = Some ''68000'' \<and>
    default_config ''TRADE_QUANTITY'' = Some ''0.001'' \<and>
    read_settings pf default_config =
      Inr \<lparr>symbol = ''BTCUSDT'', buy_price = b, sell_price = s, quantity = q\<rparr> \<and>
    load_env (Inl FileNotFoundError) = ([Log WARNING EnvNotFoundMsg], Inr Map.empty) \<and>
    arg_defaults pf Map.empty =
      Inr \<lparr>arg_api_key = [], arg_api_secret = [], arg_symbol = ''BTCUSDT'',
           arg_buy = b, arg_sell = s, arg_qty = q, arg_testnet = True, arg_ui = False\<rparr>"
proof -
  have d: "dom default_config = {''BINANCE_API_KEY'', ''BINANCE_API_SECRET'', ''USE_TESTNET'', ''SYMBOL'',
                          ''BUY_THRESHOLD'', ''SELL_THRESHOLD'', ''TRADE_QUANTITY''}"
    by (auto simp: default_config_def)
  have v: "default_config ''BINANCE_API_KEY'' = Some ''your_testnet_key''"
    "default_config ''BINANCE_API_SECRET'' = Some ''your_testnet_secret''"
    "default_config ''USE_TESTNET'' = Some ''True''"
    "default_config ''SYMBOL'' = Some ''BTCUSDT''"
    "default_config ''BUY_THRESHOLD'' = Some ''60000''"
    "default_config ''SELL_THRESHOLD'' = Some ''68000''"
    "default_config ''TRADE_QUANTITY'' = Some ''0.001''"
    by (simp_all add: default_config_def)
  have r: "read_settings pf default_config =
      Inr \<lparr>symbol = ''BTCUSDT'', buy_price = b, sell_price = s, quantity = q\<rparr>"
    using assms by (simp add: read_settings_def v)
  have a: "arg_defaults pf Map.empty =
      Inr \<lparr>arg_api_key = [], arg_api_secret = [], arg_symbol = ''BTCUSDT'',
           arg_buy = b, arg_sell = s, arg_qty = q, arg_testnet = True, arg_ui = False\<rparr>"
    using assms by (simp add: arg_defaults_def dict_get_def lower_True)
  from d v r a show ?thesis by (simp add: load_config_def load_env_def)
qed

text \<open>The defaults read by \<open>run_bot\<close>, with the three numbers converted.\<close>

theorem missing_env_defaults_witness:
  "float_table [(''60000'', Fin 60000), (''68000'', Fin 68000), (''0.001'', Fin 0.001)] ''60000''
     = Inr (Fin 60000) \<and>
   float_table [(''60000'', Fin 60000), (''68000'', Fin 68000), (''0.001'', Fin 0.001)] ''68000''
     = Inr (Fin 68000) \<and>
   float_table [(''60000'', Fin 60000), (''68000'', Fin 68000), (''0.001'', Fin 0.001)] ''0.001''
     = Inr (Fin 0.001) \<and>
   read_settings (float_table [(''60000'', Fin 60000), (''68000'', Fin 68000), (''0.001'', Fin 0.001)])
     default_config
   = Inr \<lparr>symbol = ''BTCUSDT'', buy_price = Fin 60000, sell_price = Fin 68000, quantity = Fin 0.001\<rparr>"
proof -
  let ?pf = "float_table [(''60000'', Fin 60000), (''68000'', Fin 68000), (''0.001'', Fin 0.001)]"
  have h1: "?pf ''60000'' = Inr (Fin 60000)" by (simp add: float_table_def)
  have h2: "?pf ''68000'' = Inr (Fin 68000)" by (simp add: float_table_def)
  have h3: "?pf ''0.001'' = Inr (Fin 0.001)" by (simp add: float_table_def)
  from missing_env_defaults [OF h1 h2 h3] h1 h2 h3 show ?thesis by simp
qed

section \<open>Balances\<close>

lemma balances_comp_total:
  assumes "\<forall>it\<in>set items. \<exists>x. pf (snd it) = Inr x"
  shows "\<exists>d'. balances_comp pf items d = Inr d' \<and>
           dom d' = dom d \<union> {a. \<exists>f x. (a, f) \<in> set items \<and> pf f = Inr x \<and> float_gt x (Fin 0)} \<and>
           (\<forall>a x. d' a = Some x \<longrightarrow>
              d a = Some x \<or> (\<exists>f. (a, f) \<in> set items \<and> pf f = Inr x \<and> float_gt x (Fin 0)))"
  using assms
proof (induction items arbitrary: d)
  case Nil
  then show ?case by simp
next
  case (Cons it items)
  obtain asset free where it: "it = (asset, free)" by (cases it)
  from Cons.prems it obtain x where x: "pf free = Inr x" by auto
  from Cons.prems have rest: "\<forall>it\<in>set items. \<exists>x. pf (snd it) = Inr x" by simp
  show ?case
  proof (cases "float_gt x (Fin 0)")
    case True
    from Cons.IH [OF rest, of "d(asset \<mapsto> x)"] obtain d' where
      d': "balances_comp pf items (d(asset \<mapsto> x)) = Inr d'"
        "dom d' = dom (d(asset \<mapsto> x)) \<union>
           {a. \<exists>f x. (a, f) \<in> set items \<and> pf f = Inr x \<and> float_gt x (Fin 0)}"
        "\<forall>a y. d' a = Some y \<longrightarrow> (d(asset \<mapsto> x)) a = Some y \<or>
           (\<exists>f. (a, f) \<in> set items \<and> pf f = Inr y \<and> float_gt y (Fin 0))"
      by blast
    have 1: "balances_comp pf (it # items) d = Inr d'"
      using it x True d'(1) by simp
    have 2: "dom d' = dom d \<union>
        {a. \<exists>f x. (a, f) \<in> set (it # items) \<and> pf f = Inr x \<and> float_gt x (Fin 0)}"
      using d'(2) it x True by auto
    have 3: "\<forall>a y. d' a = Some y \<longrightarrow> d a = Some y \<or>
           (\<exists>f. (a, f) \<in> set (it # items) \<and> pf f = Inr y \<and> float_gt y (Fin 0))"
    proof (intro allI impI)
      fix a y assume "d' a = Some y"
      with d'(3) have "(d(asset \<mapsto> x)) a = Some y \<or>
           (\<exists>f. (a, f) \<in> set items \<and> pf f = Inr y \<and> float_gt y (Fin 0))" by blast
      then show "d a = Some y \<or>
           (\<exists>f. (a, f) \<in> set (it # items) \<and> pf f = Inr y \<and> float_gt y (Fin 0))"
        using it x True by (cases "a = asset") auto
    qed
    from 1 2 3 show ?thesis by blast
  next
    case False
    from Cons.IH [OF rest, of d] obtain d' where
      d': "balances_comp pf items d = Inr d'"
        "dom d' = dom d \<union> {a. \<exists>f x. (a, f) \<in> set items \<and> pf f = Inr x \<and> float_gt x (Fin 0)}"
        "\<forall>a y. d' a = Some y \<longrightarrow> d a = Some y \<or>
           (\<exists>f. (a, f) \<in> set items \<and> pf f = Inr y \<and> float_gt y (Fin 0))"
      by blast
    have 1: "balances_comp pf (it # items) d = Inr d'"
      using it x False d'(1) by simp
    have 2: "dom d' = dom d \<union>
        {a. \<exists>f x. (a, f) \<in> set (it # items) \<and> pf f = Inr x \<and> float_gt x (Fin 0)}"
      using d'(2) it x False by auto
    have 3: "\<forall>a y. d' a = Some y \<longrightarrow> d a = Some y \<or>
           (\<exists>f. (a, f) \<in> set (it # items) \<and> pf f = Inr y \<and> float_gt y (Fin 0))"
      using d'(3) by auto
    from 1 2 3 show ?thesis by blast
  qed
qed

text \<open>
  Claim C10. When the account query returns and every free amount converts to a
  float, both balance queries return the same dictionary; its keys are exactly the
  assets that have an entry with a free amount strictly greater than zero, and every
  value in it is such an amount. Assets whose entries are all zero are left out.
\<close>

theorem balance_query:
  assumes "\<forall>it\<in>set items. \<exists>x. pf (snd it) = Inr x"
  shows "\<exists>d. get_account_balance pf (Inr items) = ([GetAccount], Inr d) \<and>
              get_balance pf (Inr items) = ([GetAccount], Inr d) \<and>
              dom d = {a. \<exists>f x. (a, f) \<in> set items \<and> pf f = Inr x \<and> float_gt x (Fin 0)} \<and>
              (\<forall>a x. d a = Some x \<longrightarrow>
                 (\<exists>f. (a, f) \<in> set items \<and> pf f = Inr x \<and> float_gt x (Fin 0)))"
proof -
  from balances_comp_total [OF assms, of Map.empty] obtain d where
    d: "balances_comp pf items Map.empty = Inr d"
      "dom d = {a. \<exists>f x. (a, f) \<in> set items \<and> pf f = Inr x \<and> float_gt x (Fin 0)}"
      "\<forall>a x. d a = Some x \<longrightarrow> (\<exists>f. (a, f) \<in> set items \<and> pf f = Inr x \<and> float_gt x (Fin 0))"
    by auto
  from d(1) have "get_account_balance pf (Inr items) = ([GetAccount], Inr d)"
    and "get_balance pf (Inr items) = ([GetAccount], Inr d)"
    by (simp_all add: get_account_balance_def get_balance_def)
  with d(2,3) show ?thesis by blast
qed

text \<open>Three assets, one of them with a zero free amount.\<close>

theorem balance_query_witness:
  "float_table [(''0.5'', Fin 0.5), (''0'', Fin 0), (''100'', Fin 100)] ''0.5'' = Inr (Fin 0.5) \<and>
   float_table [(''0.5'', Fin 0.5), (''0'', Fin 0), (''100'', Fin 100)] ''0'' = Inr (Fin 0) \<and>
   float_table [(''0.5'', Fin 0.5), (''0'', Fin 0), (''100'', Fin 100)] ''100'' = Inr (Fin 100) \<and>
   (\<exists>d. get_account_balance (float_table [(''0.5'', Fin 0.5), (''0'', Fin 0), (''100'', Fin 100)])
          (Inr [(''BTC'', ''0.5''), (''ETH'', ''0''), (''USDT'', ''100'')]) = ([GetAccount], Inr d) \<and>
        dom d = {''BTC'', ''USDT''})"
proof -
  define pf where "pf = float_table [(''0.5'', Fin 0.5), (''0'', Fin 0), (''100'', Fin 100)]"
  define items where "items = [(''BTC'', ''0.5''), (''ETH'', ''0''), (''USDT'', ''100'')]"
  define keys where "keys = {''BTC'', ''USDT''}"
  have p: "pf ''0.5'' = Inr (Fin 0.5)" "pf ''0'' = Inr (Fin 0)" "pf ''100'' = Inr (Fin 100)"
    by (simp_all add: pf_def float_table_def)
  have h: "\<forall>it\<in>set items. \<exists>x. pf (snd it) = Inr x"
    by (simp add: items_def p)
  have s: "{a. \<exists>f x. (a, f) \<in> set items \<and> pf f = Inr x \<and> float_gt x (Fin 0)} = keys"
    by (auto simp: items_def keys_def p float_gt_def)
  from balance_query [OF h] obtain d where
    "get_account_balance pf (Inr items) = ([GetAccount], Inr d)"
    "dom d = {a. \<exists>f x. (a, f) \<in> set items \<and> pf f = Inr x \<and> float_gt x (Fin 0)}"
    by blast
  with s p have "pf ''0.5'' = Inr (Fin 0.5) \<and> pf ''0'' = Inr (Fin 0) \<and> pf ''100'' = Inr (Fin 100) \<and>
     (\<exists>d. get_account_balance pf (Inr items) = ([GetAccount], Inr d) \<and> dom d = keys)"
    by simp
  then show ?thesis unfolding pf_def items_def keys_def .
qed

end
